theory Spec2Isabelle
  imports Main
begin

section \<open>JavaScript values and the built-ins the two handlers call\<close>

text \<open>
  Both handlers work on whatever \<^verbatim>\<open>parser.parse(response.data)\<close> returns: an untyped
  tree of objects, arrays, strings and numbers. The tree is the datatype \<open>jsval\<close>. An
  object is an association list from keys to values (the first binding of a key counts).
  Numbers are integers or \<open>JNaN\<close>; fractional numbers do not occur in the model. A string
  is a list of code units below 256.
\<close>

datatype jsval =
    JUndef
  | JNull
  | JBool bool
  | JNum int
  | JNaN
  | JStr string
  | JArr "jsval list"
  | JObj "(string \<times> jsval) list"

text \<open>
  A thrown value is an \<^verbatim>\<open>Error\<close> instance with its message (a \<^verbatim>\<open>TypeError\<close> of the
  engine, an error of axios, a \<^verbatim>\<open>SyntaxError\<close> of \<^verbatim>\<open>req.json()\<close>) or some other value. The
  wording of the engine's \<^verbatim>\<open>TypeError\<close> messages follows V8.
\<close>

datatype thrown = ErrorInstance string | OtherValue

definition bindE :: "thrown + 'a \<Rightarrow> ('a \<Rightarrow> thrown + 'b) \<Rightarrow> thrown + 'b" where
  "bindE m f = (case m of Inl e \<Rightarrow> Inl e | Inr x \<Rightarrow> f x)"

definition typeError :: "string \<Rightarrow> thrown + 'a" where
  "typeError msg = Inl (ErrorInstance msg)"

fun truthy :: "jsval \<Rightarrow> bool" where
  "truthy JUndef = False"
| "truthy JNull = False"
| "truthy (JBool b) = b"
| "truthy (JNum n) = (n \<noteq> 0)"
| "truthy JNaN = False"
| "truthy (JStr s) = (s \<noteq> [])"
| "truthy (JArr xs) = True"
| "truthy (JObj kvs) = True"

text \<open>\<^verbatim>\<open>a || b\<close>\<close>

definition orJS :: "jsval \<Rightarrow> jsval \<Rightarrow> jsval" where
  "orJS a b = (if truthy a then a else b)"

fun nullish :: "jsval \<Rightarrow> bool" where
  "nullish JUndef = True"
| "nullish JNull = True"
| "nullish v = False"

text \<open>
  \<open>readProp v k\<close> is the property read \<^verbatim>\<open>v.k\<close> on a value that is neither \<^verbatim>\<open>undefined\<close> nor
  \<^verbatim>\<open>null\<close>: the binding of an object, the \<^verbatim>\<open>length\<close> of an array or a string, and
  \<^verbatim>\<open>undefined\<close> for every other key the handlers read. \<open>getProp\<close> adds the \<^verbatim>\<open>TypeError\<close>
  of a read on \<^verbatim>\<open>undefined\<close> or \<^verbatim>\<open>null\<close>, and \<open>getPropOpt\<close> is the optional chain
  \<^verbatim>\<open>v?.k\<close>.
\<close>

fun readProp :: "jsval \<Rightarrow> string \<Rightarrow> jsval" where
  "readProp (JObj kvs) k = (case map_of kvs k of None \<Rightarrow> JUndef | Some v \<Rightarrow> v)"
| "readProp (JArr xs) k = (if k = ''length'' then JNum (int (length xs)) else JUndef)"
| "readProp (JStr s) k = (if k = ''length'' then JNum (int (length s)) else JUndef)"
| "readProp v k = JUndef"

definition cannotRead :: "string \<Rightarrow> string \<Rightarrow> string" where
  "cannotRead what k =
     ''Cannot read properties of '' @ what @ '' (reading '' @ [CHR 0x27] @ k @ [CHR 0x27] @ '')''"

fun getProp :: "jsval \<Rightarrow> string \<Rightarrow> thrown + jsval" where
  "getProp JUndef k = typeError (cannotRead ''undefined'' k)"
| "getProp JNull k = typeError (cannotRead ''null'' k)"
| "getProp v k = Inr (readProp v k)"

definition getPropOpt :: "jsval \<Rightarrow> string \<Rightarrow> jsval" where
  "getPropOpt v k = (if nullish v then JUndef else readProp v k)"

text \<open>\<^verbatim>\<open>v[0]\<close>\<close>

fun index0 :: "jsval \<Rightarrow> thrown + jsval" where
  "index0 JUndef = typeError (cannotRead ''undefined'' ''0'')"
| "index0 JNull = typeError (cannotRead ''null'' ''0'')"
| "index0 (JArr xs) = Inr (case xs of [] \<Rightarrow> JUndef | x # rest \<Rightarrow> x)"
| "index0 (JStr s) = Inr (case s of [] \<Rightarrow> JUndef | c # rest \<Rightarrow> JStr [c])"
| "index0 (JObj kvs) = Inr (readProp (JObj kvs) ''0'')"
| "index0 v = Inr JUndef"

text \<open>
  A method call \<^verbatim>\<open>v.m(...)\<close> of an array method (\<^verbatim>\<open>map\<close>, \<^verbatim>\<open>find\<close>, \<^verbatim>\<open>join\<close>): it runs on
  an array and throws a \<^verbatim>\<open>TypeError\<close> on everything else. \<open>expr\<close> is the source text of
  the receiver, which the engine's message quotes.
\<close>

fun arrayMethod :: "string \<Rightarrow> string \<Rightarrow> jsval \<Rightarrow> (jsval list \<Rightarrow> thrown + 'a) \<Rightarrow> thrown + 'a" where
  "arrayMethod expr m (JArr xs) f = f xs"
| "arrayMethod expr m JUndef f = typeError (cannotRead ''undefined'' m)"
| "arrayMethod expr m JNull f = typeError (cannotRead ''null'' m)"
| "arrayMethod expr m v f = typeError (expr @ ''.'' @ m @ '' is not a function'')"

text \<open>\<^verbatim>\<open>xs.map(f)\<close> and \<^verbatim>\<open>xs.find(p)\<close> with a callback that may throw: the first throw ends the loop.\<close>

fun mapE :: "('a \<Rightarrow> thrown + 'b) \<Rightarrow> 'a list \<Rightarrow> thrown + 'b list" where
  "mapE f [] = Inr []"
| "mapE f (x # xs) = bindE (f x) (\<lambda>y. bindE (mapE f xs) (\<lambda>ys. Inr (y # ys)))"

fun findE :: "(jsval \<Rightarrow> thrown + bool) \<Rightarrow> jsval list \<Rightarrow> thrown + jsval" where
  "findE p [] = Inr JUndef"
| "findE p (x # xs) = bindE (p x) (\<lambda>b. if b then Inr x else findE p xs)"

subsection \<open>Strings\<close>

text \<open>White space of \<^verbatim>\<open>String.prototype.trim\<close> among the code units below 256.\<close>

definition isWhiteSpace :: "char \<Rightarrow> bool" where
  "isWhiteSpace c = (c \<in> set [CHR 0x09, CHR 0x0A, CHR 0x0B, CHR 0x0C, CHR 0x0D, CHR 0x20, CHR 0xA0])"

definition trim :: "string \<Rightarrow> string" where
  "trim s = rev (dropWhile isWhiteSpace (rev (dropWhile isWhiteSpace s)))"

text \<open>\<^verbatim>\<open>v.trim()\<close>\<close>

fun trimMethod :: "string \<Rightarrow> jsval \<Rightarrow> thrown + jsval" where
  "trimMethod expr (JStr s) = Inr (JStr (trim s))"
| "trimMethod expr JUndef = typeError (cannotRead ''undefined'' ''trim'')"
| "trimMethod expr JNull = typeError (cannotRead ''null'' ''trim'')"
| "trimMethod expr v = typeError (expr @ ''.trim is not a function'')"

text \<open>Decimal digits of a number, as \<^verbatim>\<open>String(n)\<close> prints an integer below \<open>10^21\<close>.\<close>

fun decimal :: "nat \<Rightarrow> string" where
  "decimal n = (if n < 10 then [''0123456789'' ! n] else decimal (n div 10) @ [''0123456789'' ! (n mod 10)])"

declare decimal.simps [simp del]

definition String_of_int :: "int \<Rightarrow> string" where
  "String_of_int i = (if i < 0 then CHR ''-'' # decimal (nat (- i)) else decimal (nat i))"

fun joinStrings :: "string \<Rightarrow> string list \<Rightarrow> string" where
  "joinStrings sep [] = []"
| "joinStrings sep [s] = s"
| "joinStrings sep (s # t # ss) = s @ sep @ joinStrings sep (t # ss)"

text \<open>
  \<open>toStringJS\<close> is the conversion of a template literal and of \<^verbatim>\<open>String(v)\<close>; an array
  prints as its elements joined by commas, where \<^verbatim>\<open>undefined\<close> and \<^verbatim>\<open>null\<close> print as
  nothing. \<open>joinJS\<close> is \<^verbatim>\<open>xs.join(sep)\<close>.
\<close>

fun toStringJS :: "jsval \<Rightarrow> string" where
  "toStringJS JUndef = ''undefined''"
| "toStringJS JNull = ''null''"
| "toStringJS (JBool b) = (if b then ''true'' else ''false'')"
| "toStringJS (JNum n) = String_of_int n"
| "toStringJS JNaN = ''NaN''"
| "toStringJS (JStr s) = s"
| "toStringJS (JArr xs) = joinStrings '','' (map (\<lambda>x. if nullish x then [] else toStringJS x) xs)"
| "toStringJS (JObj kvs) = ''[object Object]''"

definition joinJS :: "string \<Rightarrow> jsval list \<Rightarrow> string" where
  "joinJS sep xs = joinStrings sep (map (\<lambda>x. if nullish x then [] else toStringJS x) xs)"

subsection \<open>Numbers\<close>

definition isDigit :: "char \<Rightarrow> bool" where
  "isDigit c = (c \<in> set ''0123456789'')"

definition digitVal :: "char \<Rightarrow> nat" where
  "digitVal c = of_char c - 48"

definition digitsVal :: "string \<Rightarrow> nat" where
  "digitsVal ds = foldl (\<lambda>acc c. 10 * acc + digitVal c) 0 ds"

text \<open>
  \<^verbatim>\<open>Number.parseInt(v, 10)\<close>: the argument is converted to a string; leading white space
  and one sign are skipped, the longest run of decimal digits is read, and there being no
  digit gives \<^verbatim>\<open>NaN\<close>.
\<close>

definition parseInt10 :: "jsval \<Rightarrow> jsval" where
  "parseInt10 v =
     (let t = dropWhile isWhiteSpace (toStringJS v);
          neg = (case t of [] \<Rightarrow> False | c # r \<Rightarrow> c = CHR ''-'');
          r = (case t of [] \<Rightarrow> [] | c # r \<Rightarrow> if c = CHR ''-'' \<or> c = CHR ''+'' then r else t);
          ds = takeWhile isDigit r
      in if ds = [] then JNaN
         else JNum (if neg then - int (digitsVal ds) else int (digitsVal ds)))"

text \<open>
  \<^verbatim>\<open>Number(v)\<close>. A string converts when, trimmed, it is empty (zero) or an optionally
  signed run of decimal digits; the other numeric literals of JavaScript (fractions,
  exponents, radix prefixes, \<^verbatim>\<open>Infinity\<close>) denote numbers outside the integers of the
  model and are not read: they give \<open>JNaN\<close> here. An integer is kept digit for digit, also
  beyond \<open>2^53\<close>, where JavaScript rounds to the nearest double.
\<close>

definition stringToNumber :: "string \<Rightarrow> jsval" where
  "stringToNumber s =
     (let t = trim s;
          neg = (case t of [] \<Rightarrow> False | c # r \<Rightarrow> c = CHR ''-'');
          r = (case t of [] \<Rightarrow> [] | c # r \<Rightarrow> if c = CHR ''-'' \<or> c = CHR ''+'' then r else t)
      in if t = [] then JNum 0
         else if r \<noteq> [] \<and> list_all isDigit r
              then JNum (if neg then - int (digitsVal r) else int (digitsVal r))
              else JNaN)"

fun Number :: "jsval \<Rightarrow> jsval" where
  "Number JUndef = JNaN"
| "Number JNull = JNum 0"
| "Number (JBool b) = JNum (if b then 1 else 0)"
| "Number (JNum n) = JNum n"
| "Number JNaN = JNaN"
| "Number (JStr s) = stringToNumber s"
| "Number (JArr xs) = stringToNumber (toStringJS (JArr xs))"
| "Number (JObj kvs) = JNaN"

text \<open>
  \<^verbatim>\<open>encodeURIComponent(s)\<close>: letters, digits and \<^verbatim>\<open>- _ . ! ~ * ' ( )\<close> stay, every other
  code unit is written as the percent-escaped bytes of its UTF-8 encoding.
\<close>

definition uriUnreserved :: "char \<Rightarrow> bool" where
  "uriUnreserved c =
     (c \<in> set (''ABCDEFGHIJKLMNOPQRSTUVWXYZabcdefghijklmnopqrstuvwxyz0123456789-_.!~*()'' @ [CHR 0x27]))"

definition hex2 :: "nat \<Rightarrow> string" where
  "hex2 n = [''0123456789ABCDEF'' ! (n div 16), ''0123456789ABCDEF'' ! (n mod 16)]"

definition encodeUnit :: "char \<Rightarrow> string" where
  "encodeUnit c =
     (let n = (of_char c :: nat)
      in if uriUnreserved c then [c]
         else if n < 128 then CHR ''%'' # hex2 n
         else CHR ''%'' # hex2 (192 + n div 64) @ CHR ''%'' # hex2 (128 + n mod 64))"

definition encodeURIComponent :: "string \<Rightarrow> string" where
  "encodeURIComponent s = concat (map encodeUnit s)"


section \<open>What a handler does and what it returns\<close>

text \<open>
  A handler's run is the list of its outbound effects, in order, and its response. The
  upstream service is a function from the request URL to what
  \<^verbatim>\<open>parser.parse((await axios.get(url)).data)\<close> gives: the parsed document, or the
  value thrown by the request or by the parser. \<open>Response body headers\<close> is
  \<^verbatim>\<open>new Response(JSON.stringify(body), { headers })\<close>, kept as the value handed to
  \<^verbatim>\<open>JSON.stringify\<close> (which leaves out a property whose value is \<^verbatim>\<open>undefined\<close>);
  \<open>ErrorResponse\<close> is the SDK's \<^verbatim>\<open>createErrorResponse(type, message)\<close>.
\<close>

datatype effect = AwaitRateLimit | AxiosGet string

datatype PluginErrorType = MethodNotAllowed | InternalServerError

datatype response =
    Response jsval "(string \<times> string) list"
  | ErrorResponse PluginErrorType "string option"

type_synonym upstream = "string \<Rightarrow> thrown + jsval"

type_synonym 'a io = "effect list \<times> (thrown + 'a)"

definition bindIO :: "'a io \<Rightarrow> ('a \<Rightarrow> 'b io) \<Rightarrow> 'b io" where
  "bindIO m f =
     (case m of
        (es, Inl e) \<Rightarrow> (es, Inl e)
      | (es, Inr x) \<Rightarrow> (case f x of (es', r) \<Rightarrow> (es @ es', r)))"

definition liftE :: "thrown + 'a \<Rightarrow> 'a io" where
  "liftE r = ([], r)"

text \<open>\<^verbatim>\<open>await rateLimit()\<close> and \<^verbatim>\<open>parser.parse((await axios.get(url)).data)\<close> as effects.\<close>

definition awaitRateLimit :: "unit io" where
  "awaitRateLimit = ([AwaitRateLimit], Inr ())"

definition axiosGetParse :: "upstream \<Rightarrow> string \<Rightarrow> jsval io" where
  "axiosGetParse up url = ([AxiosGet url], up url)"

text \<open>
  The request: its HTTP method and what \<^verbatim>\<open>await req.json()\<close> gives, typed as the
  handler's cast types it. The interface of the literature-index handler has the fields
  \<^verbatim>\<open>maxResults\<close>, \<^verbatim>\<open>query\<close>, \<^verbatim>\<open>sortBy\<close>, \<^verbatim>\<open>yearEnd\<close>, \<^verbatim>\<open>yearStart\<close>; the preprint
  handler's interface has the same five and \<^verbatim>\<open>searchField\<close>, \<^verbatim>\<open>sortOrder\<close>. An optional
  field is an option; a number is an integer, as the specification's data model has it;
  the string unions are strings, as the \<^verbatim>\<open>switch\<close> and the URL templates read them.
\<close>

record PubMedRequestData =
  maxResults :: "int option"
  query :: string
  sortBy :: "string option"
  yearEnd :: "int option"
  yearStart :: "int option"

record ArxivRequestData = PubMedRequestData +
  searchField :: "string option"
  sortOrder :: "string option"

record 'b Request =
  req_method :: string
  req_json :: "thrown + 'b"

text \<open>Truthiness of an optional number: \<^verbatim>\<open>undefined\<close> and \<open>0\<close> are falsy.\<close>

definition numOpt :: "int option \<Rightarrow> jsval" where
  "numOpt x = (case x of None \<Rightarrow> JUndef | Some n \<Rightarrow> JNum n)"

definition orDefault :: "'a option \<Rightarrow> 'a \<Rightarrow> 'a" where
  "orDefault x d = (case x of None \<Rightarrow> d | Some v \<Rightarrow> v)"

text \<open>\<^verbatim>\<open>error instanceof Error ? error.message : fallback\<close>\<close>

definition errorMessage :: "string \<Rightarrow> thrown \<Rightarrow> string" where
  "errorMessage fallback e = (case e of ErrorInstance m \<Rightarrow> m | OtherValue \<Rightarrow> fallback)"

definition successHeaders :: "(string \<times> string) list" where
  "successHeaders = [(''Cache-Control'', ''max-age=3600''), (''Content-Type'', ''application/json'')]"

section \<open>The preprint (arXiv) handler\<close>

definition arxiv_searchQuery :: "ArxivRequestData \<Rightarrow> string" where
  "arxiv_searchQuery r =
     (let field = orDefault (searchField r) ''all'';
          searchQuery =
            (if field = ''title'' then ''ti:'' @ query r
             else if field = ''author'' then ''au:'' @ query r
             else if field = ''abstract'' then ''abs:'' @ query r
             else ''all:'' @ query r)
      in if truthy (numOpt (yearStart r)) \<or> truthy (numOpt (yearEnd r)) then
           (let dateQuery =
                  (if truthy (numOpt (yearStart r))
                   then [''submittedDate:['' @ toStringJS (numOpt (yearStart r)) @ ''0101 TO 99991231]'']
                   else [])
                  @ (if truthy (numOpt (yearEnd r))
                     then [''submittedDate:[00000101 TO '' @ toStringJS (numOpt (yearEnd r)) @ ''1231]'']
                     else [])
            in if length dateQuery > 0
               then ''('' @ searchQuery @ '') AND ('' @ joinStrings '' AND '' dateQuery @ '')''
               else searchQuery)
         else searchQuery)"

definition arxiv_url :: "ArxivRequestData \<Rightarrow> string" where
  "arxiv_url r =
     ''http://export.arxiv.org/api/query'' @ ''?search_query='' @ encodeURIComponent (arxiv_searchQuery r)
       @ ''&start=0&max_results='' @ String_of_int (orDefault (maxResults r) 10)
       @ ''&sortBy='' @ orDefault (sortBy r) ''relevance''
       @ ''&sortOrder='' @ orDefault (sortOrder r) ''descending''"

text \<open>
  The callback of \<^verbatim>\<open>entries.map\<close>: one entry to one paper, property by property in
  source order. \<^verbatim>\<open>Array.isArray(x) ? x.map(f) : [f(x)]\<close> is the case distinction on \<open>JArr\<close>.
\<close>

definition arxiv_paper :: "jsval \<Rightarrow> thrown + jsval" where
  "arxiv_paper entry =
     bindE (getProp entry ''author'') (\<lambda>author.
     bindE (case author of
              JArr as \<Rightarrow> mapE (\<lambda>a. getProp a ''name'') as
            | _ \<Rightarrow> bindE (getProp author ''name'') (\<lambda>n. Inr [n])) (\<lambda>authors.
     bindE (getProp entry ''category'') (\<lambda>category.
     bindE (case category of
              JArr cs \<Rightarrow> mapE (\<lambda>c. getProp c ''term'') cs
            | _ \<Rightarrow> bindE (getProp category ''term'') (\<lambda>t. Inr [t])) (\<lambda>categories.
     bindE (getProp entry ''arxiv:doi'') (\<lambda>doi.
     bindE (getProp entry ''id'') (\<lambda>ident.
     bindE (getProp entry ''arxiv:journal_ref'') (\<lambda>journalRef.
     bindE (getProp entry ''link'') (\<lambda>link.
     bindE (arrayMethod ''entry.link'' ''find'' link
              (findE (\<lambda>l. bindE (getProp l ''title'') (\<lambda>t. Inr (t = JStr ''pdf''))))) (\<lambda>pdfLink.
     bindE (getProp pdfLink ''href'') (\<lambda>pdfUrl.
     bindE (getProp entry ''published'') (\<lambda>publishedDate.
     bindE (getProp entry ''summary'') (\<lambda>summary0.
     bindE (trimMethod ''entry.summary'' summary0) (\<lambda>summary.
     bindE (getProp entry ''title'') (\<lambda>title0.
     bindE (trimMethod ''entry.title'' title0) (\<lambda>title.
     bindE (getProp entry ''updated'') (\<lambda>updatedDate.
     Inr (JObj [(''authors'', JArr authors), (''categories'', JArr categories), (''doi'', doi),
                (''id'', ident), (''journalRef'', journalRef), (''pdfUrl'', pdfUrl),
                (''publishedDate'', publishedDate), (''summary'', summary), (''title'', title),
                (''updatedDate'', updatedDate)])))))))))))))))))"

text \<open>From \<^verbatim>\<open>const entries = ...\<close> to \<^verbatim>\<open>responseData\<close>.\<close>

definition arxiv_responseData :: "int \<Rightarrow> jsval \<Rightarrow> thrown + jsval" where
  "arxiv_responseData maxRes result =
     bindE (getProp result ''feed'') (\<lambda>feed.
     bindE (getProp feed ''entry'') (\<lambda>entry.
     bindE (arrayMethod ''entries'' ''map'' (orJS entry (JArr [])) (mapE arxiv_paper)) (\<lambda>papers.
     bindE (getProp feed ''opensearch:totalResults'') (\<lambda>counter.
     bindE (index0 counter) (\<lambda>c0.
     Inr (JObj [(''nextCursor'', if int (length papers) = maxRes then JStr (String_of_int maxRes) else JUndef),
                (''papers'', JArr papers),
                (''totalResults'', parseInt10 c0)]))))))"

definition arxiv_try :: "upstream \<Rightarrow> thrown + ArxivRequestData \<Rightarrow> response io" where
  "arxiv_try up body =
     bindIO (liftE body) (\<lambda>r.
     bindIO awaitRateLimit (\<lambda>u.
     bindIO (axiosGetParse up (arxiv_url r)) (\<lambda>result.
     bindIO (liftE (arxiv_responseData (orDefault (maxResults r) 10) result)) (\<lambda>responseData.
     liftE (Inr (Response responseData successHeaders))))))"

definition arxiv_catch :: "thrown \<Rightarrow> response" where
  "arxiv_catch e = ErrorResponse InternalServerError (Some (errorMessage ''Unknown error occurred'' e))"

definition arxiv_handler :: "upstream \<Rightarrow> ArxivRequestData Request \<Rightarrow> effect list \<times> response" where
  "arxiv_handler up req =
     (if req_method req \<noteq> ''POST'' then ([], ErrorResponse MethodNotAllowed None)
      else (case arxiv_try up (req_json req) of
              (es, Inl e) \<Rightarrow> (es, arxiv_catch e)
            | (es, Inr resp) \<Rightarrow> (es, resp)))"


section \<open>The literature-index (PubMed) handler\<close>

definition pubmed_searchQuery :: "PubMedRequestData \<Rightarrow> string" where
  "pubmed_searchQuery r =
     (if truthy (numOpt (yearStart r)) \<or> truthy (numOpt (yearEnd r)) then
        (let dateFilter =
               (if truthy (numOpt (yearStart r)) then [toStringJS (numOpt (yearStart r)) @ ''[PDAT]''] else [])
               @ (if truthy (numOpt (yearEnd r)) then [toStringJS (numOpt (yearEnd r)) @ ''[PDAT]''] else [])
         in ''('' @ query r @ '') AND ('' @ joinStrings '' : '' dateFilter @ '')'')
      else query r)"

text \<open>
  \<^verbatim>\<open>process.env.PUBMED_API_KEY || '6e4b...'\<close>: the variable of the environment, unless
  it is unset or empty.
\<close>

definition API_KEY :: "string option \<Rightarrow> string" where
  "API_KEY envKey =
     (case envKey of
        None \<Rightarrow> ''6e4b525d4cde75d09925342b1681e66ef808''
      | Some k \<Rightarrow> if k = [] then ''6e4b525d4cde75d09925342b1681e66ef808'' else k)"

definition pubmed_baseUrl :: string where
  "pubmed_baseUrl = ''https://eutils.ncbi.nlm.nih.gov/entrez/eutils''"

definition pubmed_searchUrl :: "string option \<Rightarrow> PubMedRequestData \<Rightarrow> string" where
  "pubmed_searchUrl envKey r =
     pubmed_baseUrl @ ''/esearch.fcgi?db=pubmed&term='' @ encodeURIComponent (pubmed_searchQuery r)
       @ ''&retmax='' @ String_of_int (orDefault (maxResults r) 10)
       @ ''&sort='' @ (if orDefault (sortBy r) ''relevance'' = ''relevance'' then [] else ''pub_date'')
       @ ''&retmode=xml&api_key='' @ API_KEY envKey"

definition pubmed_fetchUrl :: "string option \<Rightarrow> string \<Rightarrow> string" where
  "pubmed_fetchUrl envKey ids =
     pubmed_baseUrl @ ''/efetch.fcgi?db=pubmed&id='' @ ids @ ''&retmode=xml&api_key='' @ API_KEY envKey"

text \<open>The callback of \<^verbatim>\<open>PubmedArticle.map\<close>: one article record to one paper.\<close>

definition pubmed_doi :: "jsval \<Rightarrow> thrown + jsval" where
  "pubmed_doi eLocationID =
     (case eLocationID of
        JArr ids \<Rightarrow>
          bindE (findE (\<lambda>i. bindE (getProp i ''EIdType'') (\<lambda>t. Inr (t = JStr ''doi''))) ids) (\<lambda>doiLocation.
          Inr (orJS (getPropOpt doiLocation ''_text'') (JStr [])))
      | _ \<Rightarrow>
          if getPropOpt eLocationID ''EIdType'' = JStr ''doi''
          then bindE (getProp eLocationID ''_text'') (\<lambda>t. Inr (orJS t (JStr [])))
          else Inr (JStr []))"

definition pubmed_authorName :: "jsval \<Rightarrow> thrown + jsval" where
  "pubmed_authorName author =
     bindE (getProp author ''LastName'') (\<lambda>lastName.
     bindE (getProp author ''ForeName'') (\<lambda>foreName.
     Inr (JStr (toStringJS (orJS lastName (JStr [])) @ '' '' @ toStringJS (orJS foreName (JStr []))))))"

definition pubmed_authors :: "jsval \<Rightarrow> thrown + jsval list" where
  "pubmed_authors authorList =
     (let author = getPropOpt authorList ''Author''
      in if truthy author
         then mapE pubmed_authorName (case author of JArr as \<Rightarrow> as | _ \<Rightarrow> [author])
         else Inr [])"

definition pubmed_paper :: "jsval \<Rightarrow> thrown + jsval" where
  "pubmed_paper article =
     bindE (getProp article ''MedlineCitation'') (\<lambda>medline.
     bindE (getProp medline ''Article'') (\<lambda>articleData.
     bindE (getProp articleData ''ELocationID'') (\<lambda>eLocationID.
     bindE (pubmed_doi eLocationID) (\<lambda>doi.
     bindE (getProp articleData ''AuthorList'') (\<lambda>authorList.
     bindE (pubmed_authors authorList) (\<lambda>authors.
     bindE (getProp articleData ''Abstract'') (\<lambda>abstract.
     bindE (getProp articleData ''Journal'') (\<lambda>journal.
     bindE (getProp journal ''Title'') (\<lambda>journalTitle.
     bindE (getProp medline ''PMID'') (\<lambda>pmid.
     bindE (getProp journal ''JournalIssue'') (\<lambda>journalIssue.
     bindE (getProp journalIssue ''PubDate'') (\<lambda>pubDate.
     bindE (getProp pubDate ''Year'') (\<lambda>year.
     bindE (getProp articleData ''ArticleTitle'') (\<lambda>articleTitle.
     Inr (JObj [(''abstract'', orJS (getPropOpt abstract ''AbstractText'') (JStr [])),
                (''authors'', JArr authors), (''doi'', doi), (''journal'', journalTitle),
                (''pmid'', pmid), (''publishDate'', year), (''title'', articleTitle)])))))))))))))))"

text \<open>\<^verbatim>\<open>searchResult.eSearchResult.IdList.Id\<close>\<close>

definition pubmed_pmids :: "jsval \<Rightarrow> thrown + jsval" where
  "pubmed_pmids searchResult =
     bindE (getProp searchResult ''eSearchResult'') (\<lambda>eSearchResult.
     bindE (getProp eSearchResult ''IdList'') (\<lambda>idList.
     getProp idList ''Id''))"

text \<open>From \<^verbatim>\<open>const papers = ...\<close> to \<^verbatim>\<open>responseData\<close>.\<close>

definition pubmed_responseData :: "jsval \<Rightarrow> jsval \<Rightarrow> thrown + jsval" where
  "pubmed_responseData searchResult fetchResult =
     bindE (getProp fetchResult ''PubmedArticleSet'') (\<lambda>articleSet.
     bindE (getProp articleSet ''PubmedArticle'') (\<lambda>pubmedArticle.
     bindE (arrayMethod ''fetchResult.PubmedArticleSet.PubmedArticle'' ''map'' pubmedArticle
              (mapE pubmed_paper)) (\<lambda>papers.
     bindE (getProp searchResult ''eSearchResult'') (\<lambda>eSearchResult.
     bindE (getProp eSearchResult ''Count'') (\<lambda>count.
     Inr (JObj [(''papers'', JArr papers), (''totalResults'', Number count)]))))))"

definition pubmed_emptyResponse :: response where
  "pubmed_emptyResponse =
     Response (JObj [(''papers'', JArr []), (''totalResults'', JNum 0)])
       [(''Content-Type'', ''application/json'')]"

definition pubmed_try :: "upstream \<Rightarrow> string option \<Rightarrow> thrown + PubMedRequestData \<Rightarrow> response io" where
  "pubmed_try up envKey body =
     bindIO (liftE body) (\<lambda>r.
     bindIO awaitRateLimit (\<lambda>u.
     bindIO (axiosGetParse up (pubmed_searchUrl envKey r)) (\<lambda>searchResult.
     bindIO (liftE (pubmed_pmids searchResult)) (\<lambda>pmids.
     if \<not> truthy (getPropOpt pmids ''length'') then liftE (Inr pubmed_emptyResponse)
     else
       bindIO (liftE (arrayMethod ''pmids'' ''join'' pmids (\<lambda>ids. Inr (joinJS '','' ids)))) (\<lambda>joined.
       bindIO awaitRateLimit (\<lambda>u.
       bindIO (axiosGetParse up (pubmed_fetchUrl envKey joined)) (\<lambda>fetchResult.
       bindIO (liftE (pubmed_responseData searchResult fetchResult)) (\<lambda>responseData.
       liftE (Inr (Response responseData successHeaders))))))))))"

text \<open>The fallback message is the source's literal, four CJK characters, as UTF-8 bytes.\<close>

definition pubmed_unknownError :: string where
  "pubmed_unknownError =
     [CHR 0xE6, CHR 0x9C, CHR 0xAA, CHR 0xE7, CHR 0x9F, CHR 0xA5,
      CHR 0xE9, CHR 0x94, CHR 0x99, CHR 0xE8, CHR 0xAF, CHR 0xAF]"

definition pubmed_catch :: "thrown \<Rightarrow> response" where
  "pubmed_catch e = ErrorResponse InternalServerError (Some (errorMessage pubmed_unknownError e))"

definition pubmed_handler ::
    "upstream \<Rightarrow> string option \<Rightarrow> PubMedRequestData Request \<Rightarrow> effect list \<times> response" where
  "pubmed_handler up envKey req =
     (if req_method req \<noteq> ''POST'' then ([], ErrorResponse MethodNotAllowed None)
      else (case pubmed_try up envKey (req_json req) of
              (es, Inl e) \<Rightarrow> (es, pubmed_catch e)
            | (es, Inr resp) \<Rightarrow> (es, resp)))"


section \<open>The rate limiter\<close>

text \<open>
  Each module has its own \<^verbatim>\<open>RATE_LIMIT\<close> and \<^verbatim>\<open>lastRequestTime\<close>; \<^verbatim>\<open>rateLimit\<close> is the
  same function in both. The state of one module's limiter is the clock
  (\<^verbatim>\<open>Date.now()\<close>, in milliseconds), \<^verbatim>\<open>lastRequestTime\<close>, the deadlines of the calls
  suspended in \<^verbatim>\<open>setTimeout\<close>, and the times of the slots granted so far, newest first.
  \<^verbatim>\<open>rateLimit\<close> is an async function: a call runs up to its \<^verbatim>\<open>await\<close> in one step
  (\<open>Call\<close>), and a suspended call runs from its timer to its end in another (\<open>Resume\<close>);
  between the two the clock advances (\<open>Tick\<close>) and other calls may start or resume.
  A timer fires at its deadline or later, never earlier, and the clock never goes back.
\<close>

definition arxiv_RATE_LIMIT :: int where
  "arxiv_RATE_LIMIT = 3000"

definition pubmed_RATE_LIMIT :: int where
  "pubmed_RATE_LIMIT = 100"

record limiter =
  clock :: int
  lastRequestTime :: int
  timers :: "int list"
  grants :: "int list"

datatype event = Tick nat | Call | Resume nat

text \<open>\<^verbatim>\<open>lastRequestTime = Date.now()\<close>: the slot is granted and its time recorded.\<close>

definition recordGrant :: "limiter \<Rightarrow> limiter" where
  "recordGrant s = s\<lparr>lastRequestTime := clock s, grants := clock s # grants s\<rparr>"

definition rateLimit_call :: "int \<Rightarrow> limiter \<Rightarrow> limiter" where
  "rateLimit_call RATE_LIMIT s =
     (let now = clock s;
          timeSinceLastRequest = now - lastRequestTime s
      in if timeSinceLastRequest < RATE_LIMIT
         then s\<lparr>timers := timers s @ [now + (RATE_LIMIT - timeSinceLastRequest)]\<rparr>
         else recordGrant s)"

definition rateLimit_resume :: "nat \<Rightarrow> limiter \<Rightarrow> limiter option" where
  "rateLimit_resume i s =
     (if i < length (timers s) \<and> timers s ! i \<le> clock s
      then Some (recordGrant (s\<lparr>timers := take i (timers s) @ drop (Suc i) (timers s)\<rparr>))
      else None)"

fun step :: "int \<Rightarrow> event \<Rightarrow> limiter \<Rightarrow> limiter option" where
  "step RATE_LIMIT (Tick d) s = Some (s\<lparr>clock := clock s + int d\<rparr>)"
| "step RATE_LIMIT Call s = Some (rateLimit_call RATE_LIMIT s)"
| "step RATE_LIMIT (Resume i) s = rateLimit_resume i s"

fun run :: "int \<Rightarrow> event list \<Rightarrow> limiter \<Rightarrow> limiter option" where
  "run RATE_LIMIT [] s = Some s"
| "run RATE_LIMIT (e # es) s =
     (case step RATE_LIMIT e s of None \<Rightarrow> None | Some s' \<Rightarrow> run RATE_LIMIT es s')"

text \<open>The module is loaded with \<^verbatim>\<open>lastRequestTime = 0\<close> at some time \<open>t0\<close>.\<close>

definition initial :: "int \<Rightarrow> limiter" where
  "initial t0 = \<lparr>clock = t0, lastRequestTime = 0, timers = [], grants = []\<rparr>"

text \<open>Consecutive grants (newest first) are at least the interval apart.\<close>

fun spaced :: "int \<Rightarrow> int list \<Rightarrow> bool" where
  "spaced d [] = True"
| "spaced d [g] = True"
| "spaced d (g # h # gs) = (d \<le> g - h \<and> spaced d (h # gs))"

text \<open>
  A schedule is sequential when no call of \<^verbatim>\<open>rateLimit\<close> starts while another is
  suspended: every call has returned before the next one is made.
\<close>

fun sequential :: "int \<Rightarrow> event list \<Rightarrow> limiter \<Rightarrow> bool" where
  "sequential RATE_LIMIT [] s = True"
| "sequential RATE_LIMIT (e # es) s =
     ((if e = Call then timers s = [] else True) \<and>
      (case step RATE_LIMIT e s of None \<Rightarrow> True | Some s' \<Rightarrow> sequential RATE_LIMIT es s'))"

text \<open>In a handler's run, every outbound request comes right after a wait at the gate.\<close>

fun gated :: "effect list \<Rightarrow> bool" where
  "gated [] = True"
| "gated (AwaitRateLimit # AxiosGet url # es) = gated es"
| "gated es = False"


section \<open>The properties, stated\<close>

subsection \<open>Query translation\<close>

text \<open>
  The translators as the specification words them, to be compared with
  \<open>arxiv_searchQuery\<close> and \<open>pubmed_searchQuery\<close>. A year bound counts as given when it
  is present and not zero.
\<close>

definition fieldPrefix :: "string option \<Rightarrow> string" where
  "fieldPrefix f =
     (if f = Some ''title'' then ''ti:''
      else if f = Some ''author'' then ''au:''
      else if f = Some ''abstract'' then ''abs:''
      else ''all:'')"

definition givenYear :: "int option \<Rightarrow> int option" where
  "givenYear y = (case y of None \<Rightarrow> None | Some n \<Rightarrow> if n = 0 then None else Some n)"

definition arxiv_query_spec :: "ArxivRequestData \<Rightarrow> string" where
  "arxiv_query_spec r =
     (let fieldQuery = fieldPrefix (searchField r) @ query r
      in case (givenYear (yearStart r), givenYear (yearEnd r)) of
           (None, None) \<Rightarrow> fieldQuery
         | (Some a, None) \<Rightarrow>
             ''('' @ fieldQuery @ '') AND (submittedDate:['' @ String_of_int a @ ''0101 TO 99991231])''
         | (None, Some b) \<Rightarrow>
             ''('' @ fieldQuery @ '') AND (submittedDate:[00000101 TO '' @ String_of_int b @ ''1231])''
         | (Some a, Some b) \<Rightarrow>
             ''('' @ fieldQuery @ '') AND (submittedDate:['' @ String_of_int a @ ''0101 TO 99991231]''
               @ '' AND '' @ ''submittedDate:[00000101 TO '' @ String_of_int b @ ''1231])'')"

definition pubmed_query_spec :: "PubMedRequestData \<Rightarrow> string" where
  "pubmed_query_spec r =
     (case (givenYear (yearStart r), givenYear (yearEnd r)) of
        (None, None) \<Rightarrow> query r
      | (Some a, None) \<Rightarrow> ''('' @ query r @ '') AND ('' @ String_of_int a @ ''[PDAT])''
      | (None, Some b) \<Rightarrow> ''('' @ query r @ '') AND ('' @ String_of_int b @ ''[PDAT])''
      | (Some a, Some b) \<Rightarrow>
          ''('' @ query r @ '') AND ('' @ String_of_int a @ ''[PDAT] : '' @ String_of_int b @ ''[PDAT])'')"

text \<open>\<open>containsStr p s\<close>: the string \<open>p\<close> occurs in \<open>s\<close>.\<close>

fun startsWith :: "string \<Rightarrow> string \<Rightarrow> bool" where
  "startsWith [] s = True"
| "startsWith (c # p) [] = False"
| "startsWith (c # p) (d # s) = (c = d \<and> startsWith p s)"

fun containsStr :: "string \<Rightarrow> string \<Rightarrow> bool" where
  "containsStr p [] = (p = [])"
| "containsStr p (c # s) = (startsWith p (c # s) \<or> containsStr p s)"

subsection \<open>The limiter's invariant on sequential schedules\<close>

definition limiter_inv :: "int \<Rightarrow> limiter \<Rightarrow> bool" where
  "limiter_inv d s =
     (spaced d (grants s) \<and> length (timers s) \<le> 1 \<and>
      (grants s = [] \<or> lastRequestTime s = hd (grants s)) \<and>
      list_all (\<lambda>w. lastRequestTime s + d \<le> w) (timers s))"

subsection \<open>Example requests and parsed documents\<close>

definition post :: "'b \<Rightarrow> 'b Request" where
  "post b = \<lparr>req_method = ''POST'', req_json = Inr b\<rparr>"

text \<open>The request of the specification's end-to-end scenario.\<close>

definition arxiv_example_request :: ArxivRequestData where
  "arxiv_example_request =
     \<lparr>maxResults = Some 2, query = ''quantum computing'', sortBy = None, yearEnd = None,
      yearStart = None, searchField = Some ''title'', sortOrder = None\<rparr>"

definition pubmed_example_request :: PubMedRequestData where
  "pubmed_example_request =
     \<lparr>maxResults = None, query = ''cancer'', sortBy = None, yearEnd = None, yearStart = None\<rparr>"

text \<open>An ID-search response with no identifier: the empty \<^verbatim>\<open>IdList\<close> element parses to the empty string.\<close>

definition pubmed_no_id_result :: jsval where
  "pubmed_no_id_result =
     JObj [(''eSearchResult'', JObj [(''Count'', JNum 0), (''RetMax'', JNum 0), (''RetStart'', JNum 0),
                                      (''IdList'', JStr [])])]"

definition pubmed_two_id_result :: jsval where
  "pubmed_two_id_result =
     JObj [(''eSearchResult'', JObj [(''Count'', JNum 2), (''RetMax'', JNum 2), (''RetStart'', JNum 0),
                                      (''IdList'', JObj [(''Id'', JArr [JNum 31452104, JNum 29625052])])])]"

text \<open>Schedules of the limiter: two overlapping calls, and the same calls one after the other.\<close>

definition overlapping_schedule :: "event list" where
  "overlapping_schedule = [Call, Tick 1, Call, Call, Tick 2999, Resume 0, Resume 0]"

definition sequential_schedule :: "event list" where
  "sequential_schedule = [Call, Tick 1, Call, Tick 2999, Resume 0, Tick 5000, Call]"

text \<open>
  An entry of the preprint feed as the parser delivers it: one author and one category
  (each a bare object, not a sequence), two links, text with surrounding white space.
\<close>

definition arxiv_example_entry :: jsval where
  "arxiv_example_entry =
     JObj [(''id'', JStr ''http://arxiv.org/abs/2101.00001v1''),
           (''updated'', JStr ''2021-01-02T10:00:00Z''),
           (''published'', JStr ''2021-01-01T09:00:00Z''),
           (''title'', JStr ''Quantum computing  in practice ''),
           (''summary'', JStr ''  We survey quantum computing.''),
           (''author'', JObj [(''name'', JStr ''Ada Lovelace'')]),
           (''link'', JArr [JObj [(''href'', JStr ''http://arxiv.org/abs/2101.00001v1''),
                                  (''rel'', JStr ''alternate''), (''type'', JStr ''text/html'')],
                            JObj [(''title'', JStr ''pdf''),
                                  (''href'', JStr ''http://arxiv.org/pdf/2101.00001v1''),
                                  (''rel'', JStr ''related''), (''type'', JStr ''application/pdf'')]]),
           (''category'', JObj [(''term'', JStr ''quant-ph''),
                                (''scheme'', JStr ''http://arxiv.org/schemas/atom'')])]"

text \<open>
  A feed with exactly one entry: the parser leaves the single \<^verbatim>\<open>entry\<close> child as a bare
  object. The second feed holds the same entry in a sequence.
\<close>

definition arxiv_single_entry_result :: jsval where
  "arxiv_single_entry_result =
     JObj [(''feed'', JObj [(''title'', JStr ''ArXiv Query''),
                            (''opensearch:totalResults'', JArr [JStr ''1'']),
                            (''entry'', arxiv_example_entry)])]"

definition arxiv_entry_sequence_result :: jsval where
  "arxiv_entry_sequence_result =
     JObj [(''feed'', JObj [(''title'', JStr ''ArXiv Query''),
                            (''opensearch:totalResults'', JArr [JStr ''1'']),
                            (''entry'', JArr [arxiv_example_entry])])]"

text \<open>An ID-search response with exactly one identifier, left as a bare number by the parser.\<close>

definition pubmed_single_id_result :: jsval where
  "pubmed_single_id_result =
     JObj [(''eSearchResult'', JObj [(''Count'', JNum 1), (''RetMax'', JNum 1), (''RetStart'', JNum 0),
                                      (''IdList'', JObj [(''Id'', JNum 31452104)])])]"

definition pubmed_example_article :: "int \<Rightarrow> string \<Rightarrow> jsval" where
  "pubmed_example_article pmid title =
     JObj [(''MedlineCitation'',
            JObj [(''PMID'', JNum pmid),
                  (''Article'',
                   JObj [(''Journal'', JObj [(''Title'', JStr ''The Lancet''),
                                             (''JournalIssue'',
                                              JObj [(''PubDate'', JObj [(''Year'', JNum 2019)])])]),
                         (''ArticleTitle'', JStr title),
                         (''Abstract'', JObj [(''AbstractText'', JStr '' Background and methods. '')]),
                         (''AuthorList'', JObj [(''Author'', JObj [(''LastName'', JStr ''Curie''),
                                                                   (''ForeName'', JStr ''Marie'')])])])])]"

definition pubmed_two_article_set :: jsval where
  "pubmed_two_article_set =
     JObj [(''PubmedArticleSet'',
            JObj [(''PubmedArticle'',
                   JArr [pubmed_example_article 31452104 '' Screening for lung cancer '',
                         pubmed_example_article 29625052 ''Cancer statistics''])])]"

text \<open>A detail-fetch response with exactly one article record, left as a bare object.\<close>

definition pubmed_single_article_set :: jsval where
  "pubmed_single_article_set =
     JObj [(''PubmedArticleSet'',
            JObj [(''PubmedArticle'', pubmed_example_article 31452104 ''Cancer statistics'')])]"

text \<open>An upstream that answers the ID-search endpoint with one document and every other URL with another.\<close>

definition pubmed_upstream :: "jsval \<Rightarrow> jsval \<Rightarrow> upstream" where
  "pubmed_upstream searchResult fetchResult url =
     (if startsWith ''https://eutils.ncbi.nlm.nih.gov/entrez/eutils/esearch.fcgi'' url
      then Inr searchResult else Inr fetchResult)"

definition pubmed_example_paper :: "int \<Rightarrow> string \<Rightarrow> jsval" where
  "pubmed_example_paper pmid title =
     JObj [(''abstract'', JStr '' Background and methods. ''), (''authors'', JArr [JStr ''Curie Marie'']),
           (''doi'', JStr []), (''journal'', JStr ''The Lancet''), (''pmid'', JNum pmid),
           (''publishDate'', JNum 2019), (''title'', JStr title)]"

text \<open>
  The total-count element of a preprint feed as the parser delivers it: the element
  carries a namespace attribute, so it is an object that holds the text under
  \<^verbatim>\<open>#text\<close> beside the attribute. The feed after it has this counter and no \<^verbatim>\<open>entry\<close>
  element.
\<close>

definition arxiv_counter :: "int \<Rightarrow> jsval" where
  "arxiv_counter n =
     JObj [(''#text'', JNum n), (''xmlns:opensearch'', JStr ''http://a9.com/-/spec/opensearch/1.1/'')]"

definition arxiv_no_entry_result :: jsval where
  "arxiv_no_entry_result =
     JObj [(''feed'', JObj [(''xmlns'', JStr ''http://www.w3.org/2005/Atom''),
                            (''title'', JStr ''ArXiv Query''),
                            (''opensearch:totalResults'', arxiv_counter 0),
                            (''opensearch:startIndex'', arxiv_counter 0),
                            (''opensearch:itemsPerPage'', arxiv_counter 2)])]"

text \<open>An entry with no link titled \<^verbatim>\<open>pdf\<close>, and a feed that holds it after a well-formed entry.\<close>

definition arxiv_entry_without_pdf :: jsval where
  "arxiv_entry_without_pdf =
     JObj [(''id'', JStr ''http://arxiv.org/abs/2101.00002v1''),
           (''updated'', JStr ''2021-01-03T10:00:00Z''),
           (''published'', JStr ''2021-01-03T09:00:00Z''),
           (''title'', JStr ''Quantum error correction''),
           (''summary'', JStr ''A withdrawn preprint.''),
           (''author'', JObj [(''name'', JStr ''Alan Turing'')]),
           (''link'', JArr [JObj [(''href'', JStr ''http://arxiv.org/abs/2101.00002v1''),
                                  (''rel'', JStr ''alternate''), (''type'', JStr ''text/html'')],
                            JObj [(''title'', JStr ''doi''),
                                  (''href'', JStr ''http://dx.doi.org/10.1000/182''),
                                  (''rel'', JStr ''related'')]]),
           (''category'', JObj [(''term'', JStr ''quant-ph''),
                                (''scheme'', JStr ''http://arxiv.org/schemas/atom'')])]"

definition arxiv_partial_fault_result :: jsval where
  "arxiv_partial_fault_result =
     JObj [(''feed'', JObj [(''title'', JStr ''ArXiv Query''),
                            (''opensearch:totalResults'', arxiv_counter 2),
                            (''entry'', JArr [arxiv_example_entry, arxiv_entry_without_pdf])])]"

text \<open>An article record with no \<^verbatim>\<open>Journal\<close> element, and a record set that holds it after a well-formed record.\<close>

definition pubmed_article_without_journal :: jsval where
  "pubmed_article_without_journal =
     JObj [(''MedlineCitation'',
            JObj [(''PMID'', JNum 29625052),
                  (''Article'', JObj [(''ArticleTitle'', JStr ''Cancer statistics'')])])]"

definition pubmed_partial_fault_set :: jsval where
  "pubmed_partial_fault_set =
     JObj [(''PubmedArticleSet'',
            JObj [(''PubmedArticle'',
                   JArr [pubmed_example_article 31452104 ''Screening for lung cancer'',
                         pubmed_article_without_journal])])]"

text \<open>
  A request that asks for no record (\<^verbatim>\<open>maxResults\<close> 0, sent as \<^verbatim>\<open>retmax=0\<close>), and the
  ID-search response to it: the count of the matching records and no identifier.
\<close>

definition pubmed_zero_max_request :: PubMedRequestData where
  "pubmed_zero_max_request =
     \<lparr>maxResults = Some 0, query = ''cancer'', sortBy = None, yearEnd = None, yearStart = None\<rparr>"

definition pubmed_count_only_result :: jsval where
  "pubmed_count_only_result =
     JObj [(''eSearchResult'', JObj [(''Count'', JNum 7), (''RetMax'', JNum 0), (''RetStart'', JNum 0),
                                      (''IdList'', JStr [])])]"

text \<open>An upstream whose every request fails with the given message.\<close>

definition failing_upstream :: "string \<Rightarrow> upstream" where
  "failing_upstream msg url = Inl (ErrorInstance msg)"

text \<open>An upstream that answers the ID-search endpoint and fails every other request.\<close>

definition pubmed_failing_fetch :: "jsval \<Rightarrow> string \<Rightarrow> upstream" where
  "pubmed_failing_fetch searchResult msg url =
     (if startsWith ''https://eutils.ncbi.nlm.nih.gov/entrez/eutils/esearch.fcgi'' url
      then Inr searchResult else Inl (ErrorInstance msg))"

subsection \<open>What normalisation does to the text and date fields\<close>

definition isTrimmed :: "string \<Rightarrow> bool" where
  "isTrimmed s = (if s = [] then True else \<not> isWhiteSpace (hd s) \<and> \<not> isWhiteSpace (last s))"

text \<open>The entries and the article records that the normalisers map over.\<close>

definition arxiv_entries :: "jsval \<Rightarrow> jsval list" where
  "arxiv_entries result =
     (case readProp (readProp result ''feed'') ''entry'' of JArr es \<Rightarrow> es | _ \<Rightarrow> [])"

definition pubmed_articles :: "jsval \<Rightarrow> jsval list" where
  "pubmed_articles fetchResult =
     (case readProp (readProp fetchResult ''PubmedArticleSet'') ''PubmedArticle'' of
        JArr as \<Rightarrow> as | _ \<Rightarrow> [])"

text \<open>
  A preprint paper against its entry: title and summary are the entry's strings trimmed,
  the dates are the entry's values as they are.
\<close>

definition arxiv_normalized :: "jsval \<Rightarrow> jsval \<Rightarrow> bool" where
  "arxiv_normalized entry paper =
     (case (readProp entry ''summary'', readProp entry ''title'') of
        (JStr s, JStr t) \<Rightarrow>
          readProp paper ''summary'' = JStr (trim s) \<and> isTrimmed (trim s)
          \<and> readProp paper ''title'' = JStr (trim t) \<and> isTrimmed (trim t)
          \<and> readProp paper ''publishedDate'' = readProp entry ''published''
          \<and> readProp paper ''updatedDate'' = readProp entry ''updated''
      | _ \<Rightarrow> False)"

text \<open>
  A literature-index paper against its article record: title, abstract (or the empty
  string) and year are the record's values as they are.
\<close>

definition pubmed_passed_through :: "jsval \<Rightarrow> jsval \<Rightarrow> bool" where
  "pubmed_passed_through article paper =
     (let articleData = readProp (readProp article ''MedlineCitation'') ''Article''
      in readProp paper ''title'' = readProp articleData ''ArticleTitle''
         \<and> readProp paper ''abstract''
             = orJS (getPropOpt (readProp articleData ''Abstract'') ''AbstractText'') (JStr [])
         \<and> readProp paper ''publishDate''
             = readProp (readProp (readProp (readProp articleData ''Journal'') ''JournalIssue'')
                 ''PubDate'') ''Year'')"

definition arxiv_example_paper :: jsval where
  "arxiv_example_paper =
     JObj [(''authors'', JArr [JStr ''Ada Lovelace'']), (''categories'', JArr [JStr ''quant-ph'']),
           (''doi'', JUndef), (''id'', JStr ''http://arxiv.org/abs/2101.00001v1''),
           (''journalRef'', JUndef), (''pdfUrl'', JStr ''http://arxiv.org/pdf/2101.00001v1''),
           (''publishedDate'', JStr ''2021-01-01T09:00:00Z''),
           (''summary'', JStr ''We survey quantum computing.''),
           (''title'', JStr ''Quantum computing  in practice''),
           (''updatedDate'', JStr ''2021-01-02T10:00:00Z'')]"

section \<open>Auxiliary lemmas\<close>

lemma bindE_Inl [simp]: "bindE (Inl e) f = Inl e"
  and bindE_Inr [simp]: "bindE (Inr x) f = f x"
  by (simp_all add: bindE_def)

lemma bindE_eq_Inr: "bindE m f = Inr y \<longleftrightarrow> (\<exists>x. m = Inr x \<and> f x = Inr y)"
  by (cases m) simp_all

lemma bindIO_liftE [simp]:
  "bindIO (liftE m) f = (case m of Inl e \<Rightarrow> ([], Inl e) | Inr x \<Rightarrow> f x)"
  by (simp add: bindIO_def liftE_def split: prod.splits sum.splits)

lemma bindIO_await [simp]:
  "bindIO awaitRateLimit f = (AwaitRateLimit # fst (f ()), snd (f ()))"
  by (simp add: bindIO_def awaitRateLimit_def split: prod.splits)

lemma bindIO_axios [simp]:
  "bindIO (axiosGetParse up url) f =
     (case up url of Inl e \<Rightarrow> ([AxiosGet url], Inl e)
      | Inr d \<Rightarrow> (AxiosGet url # fst (f d), snd (f d)))"
  by (simp add: bindIO_def axiosGetParse_def split: prod.splits sum.splits)

text \<open>Each handler, stage by stage: what it does and returns at every outcome of every stage.\<close>

lemma arxiv_handler_cases:
  "arxiv_handler up req =
     (if req_method req \<noteq> ''POST'' then ([], ErrorResponse MethodNotAllowed None)
      else case req_json req of
        Inl e \<Rightarrow> ([], arxiv_catch e)
      | Inr r \<Rightarrow>
          (case up (arxiv_url r) of
             Inl e \<Rightarrow> ([AwaitRateLimit, AxiosGet (arxiv_url r)], arxiv_catch e)
           | Inr result \<Rightarrow>
               (case arxiv_responseData (orDefault (maxResults r) 10) result of
                  Inl e \<Rightarrow> ([AwaitRateLimit, AxiosGet (arxiv_url r)], arxiv_catch e)
                | Inr d \<Rightarrow> ([AwaitRateLimit, AxiosGet (arxiv_url r)], Response d successHeaders))))"
  by (simp add: arxiv_handler_def arxiv_try_def split: sum.splits) (simp add: liftE_def)

lemma pubmed_handler_cases:
  "pubmed_handler up k req =
     (if req_method req \<noteq> ''POST'' then ([], ErrorResponse MethodNotAllowed None)
      else case req_json req of
        Inl e \<Rightarrow> ([], pubmed_catch e)
      | Inr r \<Rightarrow>
          (case up (pubmed_searchUrl k r) of
             Inl e \<Rightarrow> ([AwaitRateLimit, AxiosGet (pubmed_searchUrl k r)], pubmed_catch e)
           | Inr searchResult \<Rightarrow>
               (case pubmed_pmids searchResult of
                  Inl e \<Rightarrow> ([AwaitRateLimit, AxiosGet (pubmed_searchUrl k r)], pubmed_catch e)
                | Inr pmids \<Rightarrow>
                    if \<not> truthy (getPropOpt pmids ''length'')
                    then ([AwaitRateLimit, AxiosGet (pubmed_searchUrl k r)], pubmed_emptyResponse)
                    else
                      (case arrayMethod ''pmids'' ''join'' pmids (\<lambda>ids. Inr (joinJS '','' ids)) of
                         Inl e \<Rightarrow> ([AwaitRateLimit, AxiosGet (pubmed_searchUrl k r)], pubmed_catch e)
                       | Inr joined \<Rightarrow>
                           (case up (pubmed_fetchUrl k joined) of
                              Inl e \<Rightarrow>
                                ([AwaitRateLimit, AxiosGet (pubmed_searchUrl k r),
                                  AwaitRateLimit, AxiosGet (pubmed_fetchUrl k joined)], pubmed_catch e)
                            | Inr fetchResult \<Rightarrow>
                                (case pubmed_responseData searchResult fetchResult of
                                   Inl e \<Rightarrow>
                                     ([AwaitRateLimit, AxiosGet (pubmed_searchUrl k r),
                                       AwaitRateLimit, AxiosGet (pubmed_fetchUrl k joined)], pubmed_catch e)
                                 | Inr d \<Rightarrow>
                                     ([AwaitRateLimit, AxiosGet (pubmed_searchUrl k r),
                                       AwaitRateLimit, AxiosGet (pubmed_fetchUrl k joined)],
                                      Response d successHeaders)))))))"
  by (simp add: pubmed_handler_def pubmed_try_def split: sum.splits) (auto simp add: liftE_def)

lemma arxiv_prefix:
  "(if orDefault f ''all'' = ''title'' then ''ti:'' @ q
    else if orDefault f ''all'' = ''author'' then ''au:'' @ q
    else if orDefault f ''all'' = ''abstract'' then ''abs:'' @ q
    else ''all:'' @ q) = fieldPrefix f @ q"
  by (cases f) (simp_all add: orDefault_def fieldPrefix_def)

lemma arxiv_searchQuery_spec: "arxiv_searchQuery r = arxiv_query_spec r"
  unfolding arxiv_searchQuery_def arxiv_query_spec_def Let_def arxiv_prefix
  by (cases "yearStart r"; cases "yearEnd r") (simp_all add: numOpt_def givenYear_def)

lemma pubmed_searchQuery_spec: "pubmed_searchQuery r = pubmed_query_spec r"
  unfolding pubmed_searchQuery_def pubmed_query_spec_def Let_def
  by (cases "yearStart r"; cases "yearEnd r") (simp_all add: numOpt_def givenYear_def)

lemma decimal_2020: "decimal 2020 = ''2020''"
  by (simp add: decimal.simps)

lemma spaced_Cons:
  "spaced d (g # gs) = ((gs = [] \<or> d \<le> g - hd gs) \<and> spaced d gs)"
  by (cases gs) auto

lemma limiter_inv_step:
  assumes "limiter_inv d s" and "step d e s = Some s'" and "e = Call \<Longrightarrow> timers s = []"
  shows "limiter_inv d s'"
proof (cases e)
  case (Tick n)
  with assms have "s' = s\<lparr>clock := clock s + int n\<rparr>" by simp
  with assms(1) show ?thesis by (simp add: limiter_inv_def)
next
  case Call
  with assms have t: "timers s = []" and s': "s' = rateLimit_call d s" by simp_all
  show ?thesis
  proof (cases "clock s - lastRequestTime s < d")
    case True
    with s' t have "s' = s\<lparr>timers := [lastRequestTime s + d]\<rparr>"
      by (simp add: rateLimit_call_def Let_def)
    with assms(1) show ?thesis by (simp add: limiter_inv_def)
  next
    case False
    with s' have "s' = s\<lparr>lastRequestTime := clock s, grants := clock s # grants s\<rparr>"
      by (simp add: rateLimit_call_def recordGrant_def Let_def)
    with assms(1) t False show ?thesis
      by (simp add: limiter_inv_def spaced_Cons del: spaced.simps) linarith
  qed
next
  case (Resume i)
  with assms(2) have r: "i < length (timers s)" "timers s ! i \<le> clock s"
    and s': "s' = recordGrant (s\<lparr>timers := take i (timers s) @ drop (Suc i) (timers s)\<rparr>)"
    by (simp_all add: rateLimit_resume_def split: if_splits)
  from assms(1) r(1) obtain w where w: "timers s = [w]" "i = 0"
    by (cases "timers s") (simp_all add: limiter_inv_def)
  from s' w have "s' = s\<lparr>timers := [], lastRequestTime := clock s, grants := clock s # grants s\<rparr>"
    by (simp add: recordGrant_def)
  with assms(1) w r show ?thesis
    by (simp add: limiter_inv_def spaced_Cons del: spaced.simps) linarith
qed

lemma limiter_inv_run:
  "limiter_inv d s \<Longrightarrow> sequential d evs s \<Longrightarrow> run d evs s = Some s' \<Longrightarrow> limiter_inv d s'"
proof (induction evs arbitrary: s)
  case Nil
  then show ?case by simp
next
  case (Cons e evs)
  from Cons.prems(3) obtain s1 where s1: "step d e s = Some s1" "run d evs s1 = Some s'"
    by (auto split: option.splits)
  from Cons.prems(2) s1 have seq: "sequential d evs s1" and c: "e = Call \<Longrightarrow> timers s = []"
    by (auto split: if_splits)
  from limiter_inv_step[OF Cons.prems(1) s1(1) c] have "limiter_inv d s1" by simp
  from Cons.IH[OF this seq s1(2)] show ?case .
qed

lemma limiter_inv_initial: "limiter_inv d (initial t0)"
  by (simp add: limiter_inv_def initial_def)

lemma sequential_spaced:
  assumes "run d evs (initial t0) = Some s" and "sequential d evs (initial t0)"
  shows "spaced d (grants s) \<and> (grants s = [] \<or> lastRequestTime s = hd (grants s))"
  using limiter_inv_run[OF limiter_inv_initial assms(2) assms(1)] by (simp add: limiter_inv_def)

lemma gated_pubmed: "gated (fst (pubmed_handler up k req))"
  by (simp add: pubmed_handler_cases split: sum.splits)

lemma gated_arxiv: "gated (fst (arxiv_handler up req))"
  by (simp add: arxiv_handler_cases split: sum.splits)

lemma pubmed_example_run:
  "pubmed_handler (pubmed_upstream pubmed_two_id_result pubmed_two_article_set) None
       (post pubmed_example_request)
   = ([AwaitRateLimit, AxiosGet (pubmed_searchUrl None pubmed_example_request),
       AwaitRateLimit, AxiosGet (pubmed_fetchUrl None ''31452104,29625052'')],
      Response (JObj [(''papers'', JArr [pubmed_example_paper 31452104 '' Screening for lung cancer '',
                                         pubmed_example_paper 29625052 ''Cancer statistics'']),
                      (''totalResults'', JNum 2)])
               successHeaders)"
proof -
  have j: "joinJS '','' [JNum 31452104, JNum 29625052] = ''31452104,29625052''"
    by (simp add: joinJS_def String_of_int_def decimal.simps)
  have s: "pubmed_upstream pubmed_two_id_result pubmed_two_article_set
             (pubmed_searchUrl None pubmed_example_request) = Inr pubmed_two_id_result"
    by (simp add: pubmed_upstream_def pubmed_searchUrl_def pubmed_baseUrl_def)
  have f: "pubmed_upstream pubmed_two_id_result pubmed_two_article_set
             (pubmed_fetchUrl None ''31452104,29625052'') = Inr pubmed_two_article_set"
    by (simp add: pubmed_upstream_def pubmed_fetchUrl_def pubmed_baseUrl_def)
  have p: "pubmed_pmids pubmed_two_id_result = Inr (JArr [JNum 31452104, JNum 29625052])"
    by (simp add: pubmed_pmids_def pubmed_two_id_result_def)
  have a: "pubmed_paper (pubmed_example_article n t) = Inr (pubmed_example_paper n t)" for n t
    by (simp add: pubmed_paper_def pubmed_example_article_def pubmed_example_paper_def
          pubmed_doi_def pubmed_authors_def pubmed_authorName_def getPropOpt_def orJS_def)
  have d: "pubmed_responseData pubmed_two_id_result pubmed_two_article_set
             = Inr (JObj [(''papers'', JArr [pubmed_example_paper 31452104 '' Screening for lung cancer '',
                                              pubmed_example_paper 29625052 ''Cancer statistics'']),
                          (''totalResults'', JNum 2)])"
    by (simp add: pubmed_responseData_def pubmed_two_article_set_def a pubmed_two_id_result_def)
  show ?thesis
    by (simp add: pubmed_handler_cases post_def s p getPropOpt_def j f d)
qed

lemma mapE_all2: "mapE f xs = Inr ys \<Longrightarrow> list_all2 (\<lambda>x y. f x = Inr y) xs ys"
proof (induction xs arbitrary: ys)
  case Nil
  then show ?case by simp
next
  case (Cons x xs)
  then show ?case by (auto simp: bindE_eq_Inr)
qed

lemma getProp_Inr: "getProp v k = Inr x \<Longrightarrow> x = readProp v k"
  by (cases v) (simp_all add: typeError_def)

lemma trimMethod_Inr: "trimMethod e v = Inr x \<Longrightarrow> \<exists>s. v = JStr s \<and> x = JStr (trim s)"
  by (cases v) (simp_all add: typeError_def)

lemma dropWhile_hd: "dropWhile P xs \<noteq> [] \<Longrightarrow> \<not> P (hd (dropWhile P xs))"
  by (induction xs) auto

lemma dropWhile_last: "dropWhile P xs \<noteq> [] \<Longrightarrow> last (dropWhile P xs) = last xs"
  by (induction xs) (auto split: if_splits)

lemma trim_isTrimmed: "isTrimmed (trim s)"
proof (cases "trim s")
  case Nil
  then show ?thesis by (simp add: isTrimmed_def)
next
  case (Cons c cs)
  define t where "t = dropWhile isWhiteSpace s"
  define u where "u = dropWhile isWhiteSpace (rev t)"
  have ts: "trim s = rev u" by (simp add: trim_def t_def u_def)
  with Cons have u: "u \<noteq> []" by auto
  then have "rev t \<noteq> []" by (auto simp: u_def)
  then have t: "t \<noteq> []" by simp
  have "last (trim s) = hd u" using u by (simp add: ts last_rev)
  moreover have "\<not> isWhiteSpace (hd u)" using u unfolding u_def by (rule dropWhile_hd)
  ultimately have l: "\<not> isWhiteSpace (last (trim s))" by simp
  have "hd (trim s) = last u" using u by (simp add: ts hd_rev)
  also have "\<dots> = last (rev t)" using u unfolding u_def by (rule dropWhile_last)
  also have "\<dots> = hd t" using t by (simp add: last_rev)
  finally have "hd (trim s) = hd t" .
  moreover have "\<not> isWhiteSpace (hd t)" using t unfolding t_def by (rule dropWhile_hd)
  ultimately have h: "\<not> isWhiteSpace (hd (trim s))" by simp
  from h l show ?thesis by (simp add: isTrimmed_def)
qed

lemma arxiv_paper_normalized:
  assumes "arxiv_paper entry = Inr paper"
  shows "arxiv_normalized entry paper"
proof -
  from assms obtain publishedDate summary0 summary title0 title updatedDate rest1 where
    f: "getProp entry ''published'' = Inr publishedDate"
       "getProp entry ''summary'' = Inr summary0" "trimMethod ''entry.summary'' summary0 = Inr summary"
       "getProp entry ''title'' = Inr title0" "trimMethod ''entry.title'' title0 = Inr title"
       "getProp entry ''updated'' = Inr updatedDate"
    and p: "paper = JObj (rest1 @ [(''publishedDate'', publishedDate), (''summary'', summary),
                           (''title'', title), (''updatedDate'', updatedDate)])"
    and r: "map fst rest1 = [''authors'', ''categories'', ''doi'', ''id'', ''journalRef'', ''pdfUrl'']"
    unfolding arxiv_paper_def bindE_eq_Inr by force
  from f(3) obtain s where s: "summary0 = JStr s" "summary = JStr (trim s)"
    by (auto dest: trimMethod_Inr)
  from f(5) obtain t where t: "title0 = JStr t" "title = JStr (trim t)"
    by (auto dest: trimMethod_Inr)
  from f(2) s have es: "readProp entry ''summary'' = JStr s" by (auto dest: getProp_Inr)
  from f(4) t have et: "readProp entry ''title'' = JStr t" by (auto dest: getProp_Inr)
  from f(1) have ep: "publishedDate = readProp entry ''published''" by (rule getProp_Inr)
  from f(6) have eu: "updatedDate = readProp entry ''updated''" by (rule getProp_Inr)
  from r obtain a b c d e g where rest1: "rest1 = [(''authors'', a), (''categories'', b), (''doi'', c),
      (''id'', d), (''journalRef'', e), (''pdfUrl'', g)]"
    by (auto simp: map_eq_Cons_conv)
  show ?thesis
    by (simp add: arxiv_normalized_def es et p rest1 s t ep eu trim_isTrimmed)
qed

lemma pubmed_paper_passed_through:
  assumes "pubmed_paper article = Inr paper"
  shows "pubmed_passed_through article paper"
  using assms unfolding pubmed_paper_def bindE_eq_Inr
  by (auto simp add: pubmed_passed_through_def Let_def dest!: getProp_Inr)

lemma arrayMethod_Inr: "arrayMethod e m v f = Inr y \<Longrightarrow> \<exists>xs. v = JArr xs \<and> f xs = Inr y"
  by (cases v) (simp_all add: typeError_def)

lemma arxiv_example_paper_eval: "arxiv_paper arxiv_example_entry = Inr arxiv_example_paper"
  by (simp add: arxiv_paper_def arxiv_example_entry_def arxiv_example_paper_def trim_def
        isWhiteSpace_def)

lemma arxiv_example_responseData:
  "arxiv_responseData 2 arxiv_entry_sequence_result =
     Inr (JObj [(''nextCursor'', JUndef), (''papers'', JArr [arxiv_example_paper]),
                (''totalResults'', JNum 1)])"
proof -
  have "parseInt10 (JStr ''1'') = JNum 1"
    by (simp add: parseInt10_def isWhiteSpace_def isDigit_def digitsVal_def digitVal_def)
  then show ?thesis
    by (simp add: arxiv_responseData_def arxiv_entry_sequence_result_def orJS_def
          arxiv_example_paper_eval)
qed

lemma pubmed_example_paper_eval:
  "pubmed_paper (pubmed_example_article n t) = Inr (pubmed_example_paper n t)"
  by (simp add: pubmed_paper_def pubmed_example_article_def pubmed_example_paper_def
        pubmed_doi_def pubmed_authors_def pubmed_authorName_def getPropOpt_def orJS_def)

lemma pubmed_example_responseData:
  "pubmed_responseData pubmed_two_id_result pubmed_two_article_set
     = Inr (JObj [(''papers'', JArr [pubmed_example_paper 31452104 '' Screening for lung cancer '',
                                      pubmed_example_paper 29625052 ''Cancer statistics'']),
                  (''totalResults'', JNum 2)])"
  by (simp add: pubmed_responseData_def pubmed_two_article_set_def pubmed_example_paper_eval
        pubmed_two_id_result_def)

lemma arxiv_responseData_papers:
  assumes "arxiv_responseData n result = Inr body"
  shows "\<exists>papers. readProp body ''papers'' = JArr papers
                  \<and> list_all2 (\<lambda>e p. arxiv_paper e = Inr p) (arxiv_entries result) papers"
proof -
  from assms obtain feed entry papers where
    f: "getProp result ''feed'' = Inr feed" "getProp feed ''entry'' = Inr entry"
       "arrayMethod ''entries'' ''map'' (orJS entry (JArr [])) (mapE arxiv_paper) = Inr papers"
    and b: "readProp body ''papers'' = JArr papers"
    unfolding arxiv_responseData_def bindE_eq_Inr by force
  from f(3) obtain es where es: "orJS entry (JArr []) = JArr es" "mapE arxiv_paper es = Inr papers"
    by (auto dest: arrayMethod_Inr)
  from f(1,2) have e: "readProp (readProp result ''feed'') ''entry'' = entry"
    by (auto dest: getProp_Inr)
  have "arxiv_entries result = es"
    using es(1) by (cases entry) (auto simp: arxiv_entries_def e orJS_def split: if_splits)
  with mapE_all2[OF es(2)] b show ?thesis by auto
qed

lemma pubmed_responseData_papers:
  assumes "pubmed_responseData searchResult fetchResult = Inr body"
  shows "\<exists>papers. readProp body ''papers'' = JArr papers
                  \<and> list_all2 (\<lambda>a p. pubmed_paper a = Inr p) (pubmed_articles fetchResult) papers"
proof -
  from assms obtain articleSet pubmedArticle papers where
    f: "getProp fetchResult ''PubmedArticleSet'' = Inr articleSet"
       "getProp articleSet ''PubmedArticle'' = Inr pubmedArticle"
       "arrayMethod ''fetchResult.PubmedArticleSet.PubmedArticle'' ''map'' pubmedArticle
          (mapE pubmed_paper) = Inr papers"
    and b: "readProp body ''papers'' = JArr papers"
    unfolding pubmed_responseData_def bindE_eq_Inr by force
  from f(3) obtain as where as: "pubmedArticle = JArr as" "mapE pubmed_paper as = Inr papers"
    by (auto dest: arrayMethod_Inr)
  from getProp_Inr[OF f(1)] getProp_Inr[OF f(2)] as(1)
  have "readProp (readProp fetchResult ''PubmedArticleSet'') ''PubmedArticle'' = JArr as"
    by simp
  then have "pubmed_articles fetchResult = as"
    by (simp add: pubmed_articles_def)
  with mapE_all2[OF as(2)] b show ?thesis by auto
qed

lemma arxiv_example_run:
  "arxiv_handler (\<lambda>url. Inr arxiv_entry_sequence_result) (post arxiv_example_request)
   = ([AwaitRateLimit, AxiosGet (arxiv_url arxiv_example_request)],
      Response (JObj [(''nextCursor'', JUndef), (''papers'', JArr [arxiv_example_paper]),
                      (''totalResults'', JNum 1)])
               successHeaders)"
  by (simp add: arxiv_handler_cases post_def arxiv_example_request_def orDefault_def
        arxiv_example_responseData)

lemma mapE_first_fault:
  "(\<forall>x\<in>set good. \<exists>y. f x = Inr y) \<Longrightarrow> f bad = Inl e \<Longrightarrow> mapE f (good @ bad # rest) = Inl e"
  by (induction good) auto

lemma arxiv_entry_without_pdf_eval:
  "arxiv_paper arxiv_entry_without_pdf =
     Inl (ErrorInstance (''Cannot read properties of undefined (reading '' @ [CHR 0x27] @ ''href''
                          @ [CHR 0x27] @ '')''))"
  by (simp add: arxiv_paper_def arxiv_entry_without_pdf_def typeError_def cannotRead_def)

lemma pubmed_article_without_journal_eval:
  "pubmed_paper pubmed_article_without_journal =
     Inl (ErrorInstance (''Cannot read properties of undefined (reading '' @ [CHR 0x27] @ ''Title''
                          @ [CHR 0x27] @ '')''))"
  by (simp add: pubmed_paper_def pubmed_article_without_journal_def pubmed_doi_def
        pubmed_authors_def getPropOpt_def typeError_def cannotRead_def)

lemma joinJS_two_ids: "joinJS '','' [JNum 31452104, JNum 29625052] = ''31452104,29625052''"
  by (simp add: joinJS_def String_of_int_def decimal.simps)

lemma pubmed_two_id_pmids:
  "pubmed_pmids pubmed_two_id_result = Inr (JArr [JNum 31452104, JNum 29625052])"
  by (simp add: pubmed_pmids_def pubmed_two_id_result_def)

section \<open>The claims\<close>

text \<open>
  C1 fails on the code. Authors and categories are checked with \<^verbatim>\<open>Array.isArray\<close>
  before mapping, but the feed's entries, the ID list and the article records are not. A
  feed with exactly one entry, which the parser leaves as a bare object, makes
  \<^verbatim>\<open>entries.map\<close> throw and the request fail, while the same entry in a sequence is
  normalized; an ID-search response with exactly one ID, left as a bare number, has no
  \<^verbatim>\<open>length\<close> and is answered as if no record had been found, without a detail fetch; a
  detail-fetch response with exactly one article record makes \<^verbatim>\<open>PubmedArticle.map\<close>
  throw.
\<close>

theorem single_child_not_coerced:
  "snd (arxiv_handler (\<lambda>url. Inr arxiv_single_entry_result) (post arxiv_example_request))
     = ErrorResponse InternalServerError (Some ''entries.map is not a function'')
   \<and> snd (arxiv_handler (\<lambda>url. Inr arxiv_entry_sequence_result) (post arxiv_example_request))
     = Response (JObj [(''nextCursor'', JUndef), (''papers'', JArr [arxiv_example_paper]),
                       (''totalResults'', JNum 1)])
                successHeaders
   \<and> pubmed_handler (\<lambda>url. Inr pubmed_single_id_result) None (post pubmed_example_request)
     = ([AwaitRateLimit, AxiosGet (pubmed_searchUrl None pubmed_example_request)],
        Response (JObj [(''papers'', JArr []), (''totalResults'', JNum 0)])
                 [(''Content-Type'', ''application/json'')])
   \<and> snd (pubmed_handler (pubmed_upstream pubmed_two_id_result pubmed_single_article_set) None
            (post pubmed_example_request))
     = ErrorResponse InternalServerError
         (Some ''fetchResult.PubmedArticleSet.PubmedArticle.map is not a function'')"
proof -
  have a: "arxiv_responseData 2 arxiv_single_entry_result
             = Inl (ErrorInstance ''entries.map is not a function'')"
    by (simp add: arxiv_responseData_def arxiv_single_entry_result_def arxiv_example_entry_def
          orJS_def typeError_def)
  have 1: "snd (arxiv_handler (\<lambda>url. Inr arxiv_single_entry_result) (post arxiv_example_request))
     = ErrorResponse InternalServerError (Some ''entries.map is not a function'')"
    by (simp add: arxiv_handler_cases post_def arxiv_example_request_def orDefault_def a
          arxiv_catch_def errorMessage_def)
  have 3: "pubmed_handler (\<lambda>url. Inr pubmed_single_id_result) None (post pubmed_example_request)
     = ([AwaitRateLimit, AxiosGet (pubmed_searchUrl None pubmed_example_request)],
        Response (JObj [(''papers'', JArr []), (''totalResults'', JNum 0)])
                 [(''Content-Type'', ''application/json'')])"
    by (simp add: pubmed_handler_cases post_def pubmed_pmids_def pubmed_single_id_result_def
          getPropOpt_def pubmed_emptyResponse_def)
  have j: "joinJS '','' [JNum 31452104, JNum 29625052] = ''31452104,29625052''"
    by (simp add: joinJS_def String_of_int_def decimal.simps)
  have s: "pubmed_upstream pubmed_two_id_result pubmed_single_article_set
             (pubmed_searchUrl None pubmed_example_request) = Inr pubmed_two_id_result"
    by (simp add: pubmed_upstream_def pubmed_searchUrl_def pubmed_baseUrl_def)
  have f: "pubmed_upstream pubmed_two_id_result pubmed_single_article_set
             (pubmed_fetchUrl None ''31452104,29625052'') = Inr pubmed_single_article_set"
    by (simp add: pubmed_upstream_def pubmed_fetchUrl_def pubmed_baseUrl_def)
  have p: "pubmed_pmids pubmed_two_id_result = Inr (JArr [JNum 31452104, JNum 29625052])"
    by (simp add: pubmed_pmids_def pubmed_two_id_result_def)
  have d: "pubmed_responseData pubmed_two_id_result pubmed_single_article_set
             = Inl (ErrorInstance ''fetchResult.PubmedArticleSet.PubmedArticle.map is not a function'')"
    by (simp add: pubmed_responseData_def pubmed_single_article_set_def pubmed_example_article_def
          typeError_def)
  have 4: "snd (pubmed_handler (pubmed_upstream pubmed_two_id_result pubmed_single_article_set) None
            (post pubmed_example_request))
     = ErrorResponse InternalServerError
         (Some ''fetchResult.PubmedArticleSet.PubmedArticle.map is not a function'')"
    by (simp add: pubmed_handler_cases post_def s p getPropOpt_def j f d pubmed_catch_def
          errorMessage_def)
  from 1 3 4 arxiv_example_run show ?thesis by simp
qed

text \<open>
  C2, as amended. The preprint translator prefixes the query text by the mapping of
  \<^verbatim>\<open>searchField\<close> (title to \<^verbatim>\<open>ti:\<close>, author to \<^verbatim>\<open>au:\<close>, abstract to \<^verbatim>\<open>abs:\<close>, anything else
  to \<^verbatim>\<open>all:\<close>); a year bound that is present and not zero adds its date-range clause, an
  open bound defaulting to the widest date, in the form
  \<^verbatim>\<open>(<field-query>) AND (<clause> AND <clause>)\<close>; with no such bound the output is the
  prefixed query alone. With 2020 as the only lower bound the range is 20200101 to
  99991231, as the only upper bound 00000101 to 20201231, and as both bounds the
  conjunction of the two clauses.
\<close>

theorem arxiv_query_translation:
  "arxiv_searchQuery r = arxiv_query_spec r
   \<and> arxiv_searchQuery \<lparr>maxResults = m, query = q, sortBy = sb, yearEnd = None,
        yearStart = Some 2020, searchField = f, sortOrder = so\<rparr>
       = ''('' @ fieldPrefix f @ q @ '') AND (submittedDate:[20200101 TO 99991231])''
   \<and> arxiv_searchQuery \<lparr>maxResults = m, query = q, sortBy = sb, yearEnd = Some 2020,
        yearStart = None, searchField = f, sortOrder = so\<rparr>
       = ''('' @ fieldPrefix f @ q @ '') AND (submittedDate:[00000101 TO 20201231])''
   \<and> arxiv_searchQuery \<lparr>maxResults = m, query = q, sortBy = sb, yearEnd = Some 2020,
        yearStart = Some 2020, searchField = f, sortOrder = so\<rparr>
       = ''('' @ fieldPrefix f @ q
           @ '') AND (submittedDate:[20200101 TO 99991231] AND submittedDate:[00000101 TO 20201231])''
   \<and> arxiv_searchQuery \<lparr>maxResults = m, query = q, sortBy = sb, yearEnd = None,
        yearStart = None, searchField = f, sortOrder = so\<rparr>
       = fieldPrefix f @ q"
  by (simp add: arxiv_searchQuery_spec arxiv_query_spec_def givenYear_def String_of_int_def
        decimal_2020)

text \<open>
  C2 as stated fails where a bound is present and zero: \<^verbatim>\<open>if (yearStart || yearEnd)\<close>
  takes zero for absent, and no date clause is added.
\<close>

theorem arxiv_query_zero_year_counterexample:
  "arxiv_searchQuery \<lparr>maxResults = None, query = ''quantum'', sortBy = None, yearEnd = None,
       yearStart = Some 0, searchField = None, sortOrder = None\<rparr> = ''all:quantum''
   \<and> \<not> containsStr ''submittedDate''
         (arxiv_searchQuery \<lparr>maxResults = None, query = ''quantum'', sortBy = None, yearEnd = None,
            yearStart = Some 0, searchField = None, sortOrder = None\<rparr>)"
  by (simp add: arxiv_searchQuery_def orDefault_def numOpt_def)

text \<open>
  C3, as amended. The literature-index translator gives the raw query when no year bound
  is present and not zero; otherwise \<^verbatim>\<open>(<query>) AND (<bounds>)\<close>, where the bounds are
  \<^verbatim>\<open><yearStart>[PDAT] : <yearEnd>[PDAT]\<close> when both are given and the one given bound
  alone, with no range separator, when only one is: with \<^verbatim>\<open>yearStart\<close> 2020 and no
  \<^verbatim>\<open>yearEnd\<close> the query is \<^verbatim>\<open>(<query>) AND (2020[PDAT])\<close>.
\<close>

theorem pubmed_query_translation:
  "pubmed_searchQuery r = pubmed_query_spec r
   \<and> pubmed_searchQuery \<lparr>maxResults = m, query = q, sortBy = sb, yearEnd = None,
        yearStart = Some 2020\<rparr> = ''('' @ q @ '') AND (2020[PDAT])''
   \<and> pubmed_searchQuery \<lparr>maxResults = m, query = q, sortBy = sb, yearEnd = Some 2020,
        yearStart = Some 2020\<rparr> = ''('' @ q @ '') AND (2020[PDAT] : 2020[PDAT])''
   \<and> pubmed_searchQuery \<lparr>maxResults = m, query = q, sortBy = sb, yearEnd = None,
        yearStart = None\<rparr> = q"
  by (simp add: pubmed_searchQuery_spec pubmed_query_spec_def givenYear_def String_of_int_def
        decimal_2020)

text \<open>
  C3 as stated fails: with \<^verbatim>\<open>yearStart\<close> only, the clause has no range separator at all,
  so there is no empty right-hand side of one.
\<close>

theorem pubmed_query_one_sided_counterexample:
  "pubmed_searchQuery \<lparr>maxResults = None, query = ''cancer'', sortBy = None, yearEnd = None,
       yearStart = Some 2020\<rparr> = ''(cancer) AND (2020[PDAT])''
   \<and> \<not> containsStr '' : ''
         (pubmed_searchQuery \<lparr>maxResults = None, query = ''cancer'', sortBy = None, yearEnd = None,
            yearStart = Some 2020\<rparr>)"
  by (simp add: pubmed_searchQuery_def numOpt_def String_of_int_def decimal_2020)

text \<open>
  C4, as amended. On every schedule in which the calls of \<^verbatim>\<open>rateLimit\<close> do not overlap
  (each call has returned before the next is made), any two consecutive granted slots of
  a source are at least its interval apart, 3000 ms for the preprint source and 100 ms
  for the literature-index source, and after a grant \<^verbatim>\<open>lastRequestTime\<close> is the time of
  that grant. In every run of either handler each outbound request comes right after a
  wait at the gate: for the literature-index source the ID-search call and the
  detail-fetch call both.
\<close>

theorem rate_limiter_spacing_sequential:
  "(run arxiv_RATE_LIMIT evs (initial t0) = Some s \<and> sequential arxiv_RATE_LIMIT evs (initial t0)
      \<longrightarrow> spaced 3000 (grants s) \<and> (grants s = [] \<or> lastRequestTime s = hd (grants s)))
   \<and> (run pubmed_RATE_LIMIT evs' (initial t0') = Some s' \<and> sequential pubmed_RATE_LIMIT evs' (initial t0')
      \<longrightarrow> spaced 100 (grants s') \<and> (grants s' = [] \<or> lastRequestTime s' = hd (grants s')))
   \<and> gated (fst (pubmed_handler up k preq))
   \<and> gated (fst (arxiv_handler up areq))"
proof -
  have a: "spaced 3000 (grants s) \<and> (grants s = [] \<or> lastRequestTime s = hd (grants s))"
    if "run arxiv_RATE_LIMIT evs (initial t0) = Some s" "sequential arxiv_RATE_LIMIT evs (initial t0)"
    using sequential_spaced[OF that] by (simp add: arxiv_RATE_LIMIT_def)
  have p: "spaced 100 (grants s') \<and> (grants s' = [] \<or> lastRequestTime s' = hd (grants s'))"
    if "run pubmed_RATE_LIMIT evs' (initial t0') = Some s'" "sequential pubmed_RATE_LIMIT evs' (initial t0')"
    using sequential_spaced[OF that] by (simp add: pubmed_RATE_LIMIT_def)
  from a p gated_pubmed gated_arxiv show ?thesis by blast
qed

theorem rate_limiter_spacing_sequential_witness:
  "run arxiv_RATE_LIMIT sequential_schedule (initial 10000)
     = Some \<lparr>clock = 18000, lastRequestTime = 18000, timers = [], grants = [18000, 13000, 10000]\<rparr>
   \<and> sequential arxiv_RATE_LIMIT sequential_schedule (initial 10000)
   \<and> spaced 3000 [18000, 13000, 10000]
   \<and> run pubmed_RATE_LIMIT sequential_schedule (initial 10000)
     = Some \<lparr>clock = 18000, lastRequestTime = 18000, timers = [], grants = [18000, 13000, 10000]\<rparr>
   \<and> sequential pubmed_RATE_LIMIT sequential_schedule (initial 10000)
   \<and> spaced 100 [18000, 13000, 10000]"
proof -
  have ra: "run arxiv_RATE_LIMIT sequential_schedule (initial 10000)
     = Some \<lparr>clock = 18000, lastRequestTime = 18000, timers = [], grants = [18000, 13000, 10000]\<rparr>"
    by (simp add: sequential_schedule_def arxiv_RATE_LIMIT_def initial_def rateLimit_call_def
          rateLimit_resume_def recordGrant_def Let_def)
  have sa: "sequential arxiv_RATE_LIMIT sequential_schedule (initial 10000)"
    by (simp add: sequential_schedule_def arxiv_RATE_LIMIT_def initial_def rateLimit_call_def
          rateLimit_resume_def recordGrant_def Let_def)
  have rp: "run pubmed_RATE_LIMIT sequential_schedule (initial 10000)
     = Some \<lparr>clock = 18000, lastRequestTime = 18000, timers = [], grants = [18000, 13000, 10000]\<rparr>"
    by (simp add: sequential_schedule_def pubmed_RATE_LIMIT_def initial_def rateLimit_call_def
          rateLimit_resume_def recordGrant_def Let_def)
  have sp: "sequential pubmed_RATE_LIMIT sequential_schedule (initial 10000)"
    by (simp add: sequential_schedule_def pubmed_RATE_LIMIT_def initial_def rateLimit_call_def
          rateLimit_resume_def recordGrant_def Let_def)
  from rate_limiter_spacing_sequential
         [of sequential_schedule 10000
             "\<lparr>clock = 18000, lastRequestTime = 18000, timers = [], grants = [18000, 13000, 10000]\<rparr>"
             sequential_schedule 10000
             "\<lparr>clock = 18000, lastRequestTime = 18000, timers = [], grants = [18000, 13000, 10000]\<rparr>"]
       ra sa rp sp
  show ?thesis by simp
qed

text \<open>
  C4 as stated fails when calls overlap: two calls that arrive while the gate is closed
  compute the same deadline, resume together, and are granted at the same time.
\<close>

theorem rate_limiter_overlap_counterexample:
  "run arxiv_RATE_LIMIT overlapping_schedule (initial 10000)
     = Some \<lparr>clock = 13000, lastRequestTime = 13000, timers = [], grants = [13000, 13000, 10000]\<rparr>
   \<and> \<not> spaced 3000 [13000, 13000, 10000]"
  by (simp add: overlapping_schedule_def arxiv_RATE_LIMIT_def initial_def rateLimit_call_def
        rateLimit_resume_def recordGrant_def Let_def)

text \<open>
  C5 fails on the code where the ID list holds exactly one identifier. The parser leaves
  the single \<^verbatim>\<open>Id\<close> as a bare number, which has no \<^verbatim>\<open>length\<close>, so
  \<^verbatim>\<open>!pmids?.length\<close> holds and the handler answers \<^verbatim>\<open>{ papers: [], totalResults: 0 }\<close>
  without the detail-fetch call, although the list is not empty. With no identifier the
  handler short-circuits in the same way, and with two it sends the one detail-fetch
  request keyed by the comma-joined list, as the claim says.
\<close>

theorem pubmed_single_id_sends_no_detail_fetch:
  "pubmed_handler (\<lambda>url. Inr pubmed_single_id_result) None (post pubmed_example_request)
     = ([AwaitRateLimit,
         AxiosGet ''https://eutils.ncbi.nlm.nih.gov/entrez/eutils/esearch.fcgi?db=pubmed&term=cancer&retmax=10&sort=&retmode=xml&api_key=6e4b525d4cde75d09925342b1681e66ef808''],
        Response (JObj [(''papers'', JArr []), (''totalResults'', JNum 0)])
                 [(''Content-Type'', ''application/json'')])
   \<and> pubmed_handler (\<lambda>url. Inr pubmed_no_id_result) None (post pubmed_example_request)
     = ([AwaitRateLimit,
         AxiosGet ''https://eutils.ncbi.nlm.nih.gov/entrez/eutils/esearch.fcgi?db=pubmed&term=cancer&retmax=10&sort=&retmode=xml&api_key=6e4b525d4cde75d09925342b1681e66ef808''],
        Response (JObj [(''papers'', JArr []), (''totalResults'', JNum 0)])
                 [(''Content-Type'', ''application/json'')])
   \<and> fst (pubmed_handler (\<lambda>url. Inr pubmed_two_id_result) None (post pubmed_example_request))
     = [AwaitRateLimit,
        AxiosGet ''https://eutils.ncbi.nlm.nih.gov/entrez/eutils/esearch.fcgi?db=pubmed&term=cancer&retmax=10&sort=&retmode=xml&api_key=6e4b525d4cde75d09925342b1681e66ef808'',
        AwaitRateLimit,
        AxiosGet ''https://eutils.ncbi.nlm.nih.gov/entrez/eutils/efetch.fcgi?db=pubmed&id=31452104,29625052&retmode=xml&api_key=6e4b525d4cde75d09925342b1681e66ef808'']"
proof -
  have u: "pubmed_searchUrl None pubmed_example_request
      = ''https://eutils.ncbi.nlm.nih.gov/entrez/eutils/esearch.fcgi?db=pubmed&term=cancer&retmax=10&sort=&retmode=xml&api_key=6e4b525d4cde75d09925342b1681e66ef808''"
    by (simp add: pubmed_searchUrl_def pubmed_baseUrl_def pubmed_example_request_def
          pubmed_searchQuery_def numOpt_def orDefault_def String_of_int_def decimal.simps
          encodeURIComponent_def encodeUnit_def uriUnreserved_def API_KEY_def)
  have v: "pubmed_fetchUrl None ''31452104,29625052''
      = ''https://eutils.ncbi.nlm.nih.gov/entrez/eutils/efetch.fcgi?db=pubmed&id=31452104,29625052&retmode=xml&api_key=6e4b525d4cde75d09925342b1681e66ef808''"
    by (simp add: pubmed_fetchUrl_def pubmed_baseUrl_def API_KEY_def)
  have 1: "pubmed_handler (\<lambda>url. Inr pubmed_single_id_result) None (post pubmed_example_request)
     = ([AwaitRateLimit, AxiosGet (pubmed_searchUrl None pubmed_example_request)],
        Response (JObj [(''papers'', JArr []), (''totalResults'', JNum 0)])
                 [(''Content-Type'', ''application/json'')])"
    by (simp add: pubmed_handler_cases post_def pubmed_pmids_def pubmed_single_id_result_def
          getPropOpt_def pubmed_emptyResponse_def)
  have 2: "pubmed_handler (\<lambda>url. Inr pubmed_no_id_result) None (post pubmed_example_request)
     = ([AwaitRateLimit, AxiosGet (pubmed_searchUrl None pubmed_example_request)],
        Response (JObj [(''papers'', JArr []), (''totalResults'', JNum 0)])
                 [(''Content-Type'', ''application/json'')])"
    by (simp add: pubmed_handler_cases post_def pubmed_pmids_def pubmed_no_id_result_def
          getPropOpt_def pubmed_emptyResponse_def)
  have 3: "fst (pubmed_handler (\<lambda>url. Inr pubmed_two_id_result) None (post pubmed_example_request))
     = [AwaitRateLimit, AxiosGet (pubmed_searchUrl None pubmed_example_request),
        AwaitRateLimit, AxiosGet (pubmed_fetchUrl None ''31452104,29625052'')]"
    by (simp add: pubmed_handler_cases post_def pubmed_two_id_pmids getPropOpt_def joinJS_two_ids
          split: sum.splits)
  from 1 2 3 show ?thesis by (simp only: u v simp_thms)
qed

text \<open>
  C6, as amended. In every successful response of the literature-index source other than
  the empty-ID short circuit, \<^verbatim>\<open>totalResults\<close> is \<^verbatim>\<open>Number\<close> of the \<^verbatim>\<open>Count\<close> field of
  \<^verbatim>\<open>eSearchResult\<close>: the count itself when the field holds a number.
\<close>

theorem pubmed_totalResults_from_Count:
  "pubmed_handler up k preq = (es, Response body hs) \<and> Response body hs \<noteq> pubmed_emptyResponse \<longrightarrow>
     (\<exists>r searchResult eSearchResult.
         req_json preq = Inr r \<and> up (pubmed_searchUrl k r) = Inr searchResult
         \<and> getProp searchResult ''eSearchResult'' = Inr eSearchResult
         \<and> readProp body ''totalResults'' = Number (readProp eSearchResult ''Count'')
         \<and> (\<forall>n. readProp eSearchResult ''Count'' = JNum n \<longrightarrow> readProp body ''totalResults'' = JNum n))"
proof (intro impI)
  assume "pubmed_handler up k preq = (es, Response body hs) \<and> Response body hs \<noteq> pubmed_emptyResponse"
  then obtain r searchResult fetchResult where
    r: "req_json preq = Inr r" "up (pubmed_searchUrl k r) = Inr searchResult"
       "pubmed_responseData searchResult fetchResult = Inr body"
    by (auto simp: pubmed_handler_cases pubmed_catch_def split: if_splits sum.splits)
  from r(3) obtain eSearchResult count where
    c: "getProp searchResult ''eSearchResult'' = Inr eSearchResult"
       "getProp eSearchResult ''Count'' = Inr count"
       "readProp body ''totalResults'' = Number count"
    unfolding pubmed_responseData_def bindE_eq_Inr by force
  from c(2) have "count = readProp eSearchResult ''Count''" by (rule getProp_Inr)
  with c(3) have "readProp body ''totalResults'' = Number (readProp eSearchResult ''Count'')
      \<and> (\<forall>n. readProp eSearchResult ''Count'' = JNum n \<longrightarrow> readProp body ''totalResults'' = JNum n)"
    by simp
  with r(1,2) c(1) show "\<exists>r searchResult eSearchResult.
         req_json preq = Inr r \<and> up (pubmed_searchUrl k r) = Inr searchResult
         \<and> getProp searchResult ''eSearchResult'' = Inr eSearchResult
         \<and> readProp body ''totalResults'' = Number (readProp eSearchResult ''Count'')
         \<and> (\<forall>n. readProp eSearchResult ''Count'' = JNum n \<longrightarrow> readProp body ''totalResults'' = JNum n)"
    by blast
qed

theorem pubmed_totalResults_from_Count_witness:
  "pubmed_handler (pubmed_upstream pubmed_two_id_result pubmed_two_article_set) None
         (post pubmed_example_request)
     = ([AwaitRateLimit, AxiosGet (pubmed_searchUrl None pubmed_example_request),
         AwaitRateLimit, AxiosGet (pubmed_fetchUrl None ''31452104,29625052'')],
        Response (JObj [(''papers'', JArr [pubmed_example_paper 31452104 '' Screening for lung cancer '',
                                           pubmed_example_paper 29625052 ''Cancer statistics'']),
                        (''totalResults'', JNum 2)])
                 successHeaders)
   \<and> Response (JObj [(''papers'', JArr [pubmed_example_paper 31452104 '' Screening for lung cancer '',
                                        pubmed_example_paper 29625052 ''Cancer statistics'']),
                     (''totalResults'', JNum 2)])
              successHeaders \<noteq> pubmed_emptyResponse
   \<and> readProp (readProp pubmed_two_id_result ''eSearchResult'') ''Count'' = JNum 2
   \<and> (\<exists>eSearchResult.
         getProp pubmed_two_id_result ''eSearchResult'' = Inr eSearchResult
         \<and> JNum 2 = Number (readProp eSearchResult ''Count''))"
proof -
  let ?body = "JObj [(''papers'', JArr [pubmed_example_paper 31452104 '' Screening for lung cancer '',
                                        pubmed_example_paper 29625052 ''Cancer statistics'']),
                     (''totalResults'', JNum 2)]"
  have ne: "Response ?body successHeaders \<noteq> pubmed_emptyResponse"
    by (simp add: pubmed_emptyResponse_def)
  have s: "pubmed_upstream pubmed_two_id_result pubmed_two_article_set
             (pubmed_searchUrl None pubmed_example_request) = Inr pubmed_two_id_result"
    by (simp add: pubmed_upstream_def pubmed_searchUrl_def pubmed_baseUrl_def)
  have c: "readProp (readProp pubmed_two_id_result ''eSearchResult'') ''Count'' = JNum 2"
    by (simp add: pubmed_two_id_result_def)
  from pubmed_totalResults_from_Count
         [of "pubmed_upstream pubmed_two_id_result pubmed_two_article_set" None
             "post pubmed_example_request"
             "[AwaitRateLimit, AxiosGet (pubmed_searchUrl None pubmed_example_request),
               AwaitRateLimit, AxiosGet (pubmed_fetchUrl None ''31452104,29625052'')]"
             ?body successHeaders]
       pubmed_example_run ne
  have "\<exists>r searchResult eSearchResult.
         req_json (post pubmed_example_request) = Inr r
         \<and> pubmed_upstream pubmed_two_id_result pubmed_two_article_set (pubmed_searchUrl None r)
             = Inr searchResult
         \<and> getProp searchResult ''eSearchResult'' = Inr eSearchResult
         \<and> readProp ?body ''totalResults'' = Number (readProp eSearchResult ''Count'')
         \<and> (\<forall>n. readProp eSearchResult ''Count'' = JNum n \<longrightarrow> readProp ?body ''totalResults'' = JNum n)"
    by simp
  then have "\<exists>eSearchResult.
         getProp pubmed_two_id_result ''eSearchResult'' = Inr eSearchResult
         \<and> JNum 2 = Number (readProp eSearchResult ''Count'')"
    by (auto simp: post_def s)
  with pubmed_example_run ne c show ?thesis by simp
qed

text \<open>
  C6 as stated fails at the empty-ID short circuit of the literature-index handler, whose
  \<^verbatim>\<open>totalResults\<close> is the literal 0 whatever the \<^verbatim>\<open>Count\<close> field says: a request with
  \<^verbatim>\<open>maxResults\<close> 0 is sent with \<^verbatim>\<open>retmax=0\<close>, the response counts seven records and
  lists none, and the envelope says 0.
\<close>

theorem pubmed_zero_max_total_counterexample:
  "pubmed_handler (\<lambda>url. Inr pubmed_count_only_result) None (post pubmed_zero_max_request)
     = ([AwaitRateLimit,
         AxiosGet ''https://eutils.ncbi.nlm.nih.gov/entrez/eutils/esearch.fcgi?db=pubmed&term=cancer&retmax=0&sort=&retmode=xml&api_key=6e4b525d4cde75d09925342b1681e66ef808''],
        Response (JObj [(''papers'', JArr []), (''totalResults'', JNum 0)])
                 [(''Content-Type'', ''application/json'')])
   \<and> Number (readProp (readProp pubmed_count_only_result ''eSearchResult'') ''Count'') = JNum 7"
proof -
  have u: "pubmed_searchUrl None pubmed_zero_max_request
      = ''https://eutils.ncbi.nlm.nih.gov/entrez/eutils/esearch.fcgi?db=pubmed&term=cancer&retmax=0&sort=&retmode=xml&api_key=6e4b525d4cde75d09925342b1681e66ef808''"
    by (simp add: pubmed_searchUrl_def pubmed_baseUrl_def pubmed_zero_max_request_def
          pubmed_searchQuery_def numOpt_def orDefault_def String_of_int_def decimal.simps
          encodeURIComponent_def encodeUnit_def uriUnreserved_def API_KEY_def)
  have "pubmed_handler (\<lambda>url. Inr pubmed_count_only_result) None (post pubmed_zero_max_request)
     = ([AwaitRateLimit, AxiosGet (pubmed_searchUrl None pubmed_zero_max_request)],
        Response (JObj [(''papers'', JArr []), (''totalResults'', JNum 0)])
                 [(''Content-Type'', ''application/json'')])"
    by (simp add: pubmed_handler_cases post_def pubmed_pmids_def pubmed_count_only_result_def
          getPropOpt_def pubmed_emptyResponse_def)
  moreover have "Number (readProp (readProp pubmed_count_only_result ''eSearchResult'') ''Count'') = JNum 7"
    by (simp add: pubmed_count_only_result_def)
  ultimately show ?thesis by (simp only: u simp_thms)
qed

text \<open>
  C7, as amended. Every paper of the preprint source has the entry's title and summary
  trimmed of surrounding white space; every paper of the literature-index source has the
  record's title and abstract as the parser delivered them, untrimmed (the abstract
  defaulting to the empty string); the date fields of both sources are the parsed values
  passed through as they are.
\<close>

theorem text_and_date_normalisation:
  "(arxiv_responseData n result = Inr body \<longrightarrow>
      (\<exists>papers. readProp body ''papers'' = JArr papers
                \<and> list_all2 arxiv_normalized (arxiv_entries result) papers))
   \<and> (pubmed_responseData searchResult fetchResult = Inr body' \<longrightarrow>
      (\<exists>papers. readProp body' ''papers'' = JArr papers
                \<and> list_all2 pubmed_passed_through (pubmed_articles fetchResult) papers))"
proof (intro conjI impI)
  assume "arxiv_responseData n result = Inr body"
  from arxiv_responseData_papers[OF this] obtain papers where
    p: "readProp body ''papers'' = JArr papers"
       "list_all2 (\<lambda>e p. arxiv_paper e = Inr p) (arxiv_entries result) papers" by blast
  from p(2) have "list_all2 arxiv_normalized (arxiv_entries result) papers"
    by (rule list_all2_mono) (rule arxiv_paper_normalized)
  with p(1) show "\<exists>papers. readProp body ''papers'' = JArr papers
                \<and> list_all2 arxiv_normalized (arxiv_entries result) papers" by blast
next
  assume "pubmed_responseData searchResult fetchResult = Inr body'"
  from pubmed_responseData_papers[OF this] obtain papers where
    p: "readProp body' ''papers'' = JArr papers"
       "list_all2 (\<lambda>a p. pubmed_paper a = Inr p) (pubmed_articles fetchResult) papers" by blast
  from p(2) have "list_all2 pubmed_passed_through (pubmed_articles fetchResult) papers"
    by (rule list_all2_mono) (rule pubmed_paper_passed_through)
  with p(1) show "\<exists>papers. readProp body' ''papers'' = JArr papers
                \<and> list_all2 pubmed_passed_through (pubmed_articles fetchResult) papers" by blast
qed

theorem text_and_date_normalisation_witness:
  "arxiv_responseData 2 arxiv_entry_sequence_result =
     Inr (JObj [(''nextCursor'', JUndef), (''papers'', JArr [arxiv_example_paper]),
                (''totalResults'', JNum 1)])
   \<and> list_all2 arxiv_normalized (arxiv_entries arxiv_entry_sequence_result) [arxiv_example_paper]
   \<and> readProp arxiv_example_paper ''title'' = JStr ''Quantum computing  in practice''
   \<and> pubmed_responseData pubmed_two_id_result pubmed_two_article_set =
       Inr (JObj [(''papers'', JArr [pubmed_example_paper 31452104 '' Screening for lung cancer '',
                                      pubmed_example_paper 29625052 ''Cancer statistics'']),
                  (''totalResults'', JNum 2)])
   \<and> list_all2 pubmed_passed_through (pubmed_articles pubmed_two_article_set)
        [pubmed_example_paper 31452104 '' Screening for lung cancer '',
         pubmed_example_paper 29625052 ''Cancer statistics'']"
  using text_and_date_normalisation
          [of 2 arxiv_entry_sequence_result
              "JObj [(''nextCursor'', JUndef), (''papers'', JArr [arxiv_example_paper]),
                     (''totalResults'', JNum 1)]"
              pubmed_two_id_result pubmed_two_article_set
              "JObj [(''papers'', JArr [pubmed_example_paper 31452104 '' Screening for lung cancer '',
                                        pubmed_example_paper 29625052 ''Cancer statistics'']),
                     (''totalResults'', JNum 2)]"]
        arxiv_example_responseData pubmed_example_responseData
  by (simp add: arxiv_example_paper_def)

text \<open>
  C7 as stated fails for the literature-index source, which trims nothing: a title and
  an abstract with surrounding white space come out with it.
\<close>

theorem pubmed_untrimmed_counterexample:
  "snd (pubmed_handler (pubmed_upstream pubmed_two_id_result pubmed_two_article_set) None
          (post pubmed_example_request))
     = Response (JObj [(''papers'',
                        JArr [JObj [(''abstract'', JStr '' Background and methods. ''),
                                    (''authors'', JArr [JStr ''Curie Marie'']), (''doi'', JStr []),
                                    (''journal'', JStr ''The Lancet''), (''pmid'', JNum 31452104),
                                    (''publishDate'', JNum 2019),
                                    (''title'', JStr '' Screening for lung cancer '')],
                              JObj [(''abstract'', JStr '' Background and methods. ''),
                                    (''authors'', JArr [JStr ''Curie Marie'']), (''doi'', JStr []),
                                    (''journal'', JStr ''The Lancet''), (''pmid'', JNum 29625052),
                                    (''publishDate'', JNum 2019),
                                    (''title'', JStr ''Cancer statistics'')]]),
                       (''totalResults'', JNum 2)])
                [(''Cache-Control'', ''max-age=3600''), (''Content-Type'', ''application/json'')]
   \<and> \<not> isTrimmed '' Screening for lung cancer ''
   \<and> \<not> isTrimmed '' Background and methods. ''"
  by (simp add: pubmed_example_run pubmed_example_paper_def successHeaders_def isTrimmed_def
        isWhiteSpace_def)

text \<open>
  C8 fails on the code at the empty-ID short circuit of the literature-index handler: that
  response carries the \<^verbatim>\<open>Content-Type\<close> header alone, without \<^verbatim>\<open>Cache-Control\<close>,
  which the handler's other successful response sets.
\<close>

theorem pubmed_short_circuit_headers:
  "snd (pubmed_handler (\<lambda>url. Inr pubmed_no_id_result) None (post pubmed_example_request)) =
     Response (JObj [(''papers'', JArr []), (''totalResults'', JNum 0)])
              [(''Content-Type'', ''application/json'')]
   \<and> map_of [(''Content-Type'', ''application/json'')] ''Cache-Control'' = None"
  by (simp add: pubmed_handler_cases post_def pubmed_pmids_def pubmed_no_id_result_def
        getPropOpt_def pubmed_emptyResponse_def)

text \<open>
  C9. For either handler: a request whose method is not POST gets the method-not-allowed
  envelope and nothing of the pipeline runs (no effect). Otherwise whatever \<^verbatim>\<open>Error\<close> is
  thrown inside the \<^verbatim>\<open>try\<close> block, with message \<open>m\<close>, is answered by the
  internal-server-error envelope carrying \<open>m\<close> (a thrown value that is not an
  \<^verbatim>\<open>Error\<close> by the envelope with the fixed fallback text): so for a body that cannot be
  read, for a failed upstream request (each request has then been sent once, none is
  repeated), for a document without its top element, and for one entry or article record
  that cannot be mapped, where the papers of the records mapped before it are discarded
  with the rest.
\<close>

theorem boundary_error_handling:
  "(req_method areq \<noteq> ''POST'' \<longrightarrow>
      arxiv_handler up areq = ([], ErrorResponse MethodNotAllowed None))
   \<and> (req_method areq = ''POST'' \<and> arxiv_try up (req_json areq) = (es, Inl (ErrorInstance m)) \<longrightarrow>
      arxiv_handler up areq = (es, ErrorResponse InternalServerError (Some m)))
   \<and> (req_method areq = ''POST'' \<and> arxiv_try up (req_json areq) = (es, Inl OtherValue) \<longrightarrow>
      arxiv_handler up areq = (es, ErrorResponse InternalServerError (Some ''Unknown error occurred'')))
   \<and> (req_method areq = ''POST'' \<and> req_json areq = Inl (ErrorInstance m) \<longrightarrow>
      arxiv_handler up areq = ([], ErrorResponse InternalServerError (Some m)))
   \<and> (req_method areq = ''POST'' \<and> req_json areq = Inr r \<and> up (arxiv_url r) = Inl (ErrorInstance m) \<longrightarrow>
      arxiv_handler up areq =
        ([AwaitRateLimit, AxiosGet (arxiv_url r)], ErrorResponse InternalServerError (Some m)))
   \<and> (req_method areq = ''POST'' \<and> req_json areq = Inr r \<and> up (arxiv_url r) = Inr result
        \<and> getProp result ''feed'' = Inr JUndef \<longrightarrow>
      arxiv_handler up areq =
        ([AwaitRateLimit, AxiosGet (arxiv_url r)],
         ErrorResponse InternalServerError
           (Some (''Cannot read properties of undefined (reading '' @ [CHR 0x27] @ ''entry''
                  @ [CHR 0x27] @ '')''))))
   \<and> (req_method areq = ''POST'' \<and> req_json areq = Inr r \<and> up (arxiv_url r) = Inr result
        \<and> getProp result ''feed'' = Inr feed
        \<and> getProp feed ''entry'' = Inr (JArr (good @ bad # rest))
        \<and> (\<forall>e\<in>set good. \<exists>p. arxiv_paper e = Inr p)
        \<and> arxiv_paper bad = Inl (ErrorInstance m) \<longrightarrow>
      arxiv_handler up areq =
        ([AwaitRateLimit, AxiosGet (arxiv_url r)], ErrorResponse InternalServerError (Some m)))
   \<and> (req_method preq \<noteq> ''POST'' \<longrightarrow>
      pubmed_handler up' k preq = ([], ErrorResponse MethodNotAllowed None))
   \<and> (req_method preq = ''POST'' \<and> pubmed_try up' k (req_json preq) = (es', Inl (ErrorInstance m')) \<longrightarrow>
      pubmed_handler up' k preq = (es', ErrorResponse InternalServerError (Some m')))
   \<and> (req_method preq = ''POST'' \<and> pubmed_try up' k (req_json preq) = (es', Inl OtherValue) \<longrightarrow>
      pubmed_handler up' k preq = (es', ErrorResponse InternalServerError (Some pubmed_unknownError)))
   \<and> (req_method preq = ''POST'' \<and> req_json preq = Inl (ErrorInstance m') \<longrightarrow>
      pubmed_handler up' k preq = ([], ErrorResponse InternalServerError (Some m')))
   \<and> (req_method preq = ''POST'' \<and> req_json preq = Inr r'
        \<and> up' (pubmed_searchUrl k r') = Inl (ErrorInstance m') \<longrightarrow>
      pubmed_handler up' k preq =
        ([AwaitRateLimit, AxiosGet (pubmed_searchUrl k r')], ErrorResponse InternalServerError (Some m')))
   \<and> (req_method preq = ''POST'' \<and> req_json preq = Inr r'
        \<and> up' (pubmed_searchUrl k r') = Inr searchResult
        \<and> getProp searchResult ''eSearchResult'' = Inr JUndef \<longrightarrow>
      pubmed_handler up' k preq =
        ([AwaitRateLimit, AxiosGet (pubmed_searchUrl k r')],
         ErrorResponse InternalServerError
           (Some (''Cannot read properties of undefined (reading '' @ [CHR 0x27] @ ''IdList''
                  @ [CHR 0x27] @ '')''))))
   \<and> (req_method preq = ''POST'' \<and> req_json preq = Inr r'
        \<and> up' (pubmed_searchUrl k r') = Inr searchResult
        \<and> pubmed_pmids searchResult = Inr (JArr ids) \<and> ids \<noteq> []
        \<and> up' (pubmed_fetchUrl k (joinJS '','' ids)) = Inl (ErrorInstance m') \<longrightarrow>
      pubmed_handler up' k preq =
        ([AwaitRateLimit, AxiosGet (pubmed_searchUrl k r'),
          AwaitRateLimit, AxiosGet (pubmed_fetchUrl k (joinJS '','' ids))],
         ErrorResponse InternalServerError (Some m')))
   \<and> (req_method preq = ''POST'' \<and> req_json preq = Inr r'
        \<and> up' (pubmed_searchUrl k r') = Inr searchResult
        \<and> pubmed_pmids searchResult = Inr (JArr ids) \<and> ids \<noteq> []
        \<and> up' (pubmed_fetchUrl k (joinJS '','' ids)) = Inr fetchResult
        \<and> getProp fetchResult ''PubmedArticleSet'' = Inr articleSet
        \<and> getProp articleSet ''PubmedArticle'' = Inr (JArr (good' @ bad' # rest'))
        \<and> (\<forall>a\<in>set good'. \<exists>p. pubmed_paper a = Inr p)
        \<and> pubmed_paper bad' = Inl (ErrorInstance m') \<longrightarrow>
      pubmed_handler up' k preq =
        ([AwaitRateLimit, AxiosGet (pubmed_searchUrl k r'),
          AwaitRateLimit, AxiosGet (pubmed_fetchUrl k (joinJS '','' ids))],
         ErrorResponse InternalServerError (Some m')))"
proof -
  have a1: "arxiv_handler up areq = ([], ErrorResponse MethodNotAllowed None)"
    if "req_method areq \<noteq> ''POST''"
    using that by (simp add: arxiv_handler_def)
  have a2: "arxiv_handler up areq = (es, ErrorResponse InternalServerError (Some m))"
    if "req_method areq = ''POST''" "arxiv_try up (req_json areq) = (es, Inl (ErrorInstance m))"
    using that by (simp add: arxiv_handler_def arxiv_catch_def errorMessage_def)
  have a3: "arxiv_handler up areq = (es, ErrorResponse InternalServerError (Some ''Unknown error occurred''))"
    if "req_method areq = ''POST''" "arxiv_try up (req_json areq) = (es, Inl OtherValue)"
    using that by (simp add: arxiv_handler_def arxiv_catch_def errorMessage_def)
  have a4: "arxiv_handler up areq = ([], ErrorResponse InternalServerError (Some m))"
    if "req_method areq = ''POST''" "req_json areq = Inl (ErrorInstance m)"
    using that by (simp add: arxiv_handler_cases arxiv_catch_def errorMessage_def)
  have a5: "arxiv_handler up areq =
        ([AwaitRateLimit, AxiosGet (arxiv_url r)], ErrorResponse InternalServerError (Some m))"
    if "req_method areq = ''POST''" "req_json areq = Inr r" "up (arxiv_url r) = Inl (ErrorInstance m)"
    using that by (simp add: arxiv_handler_cases arxiv_catch_def errorMessage_def)
  have a6: "arxiv_handler up areq =
        ([AwaitRateLimit, AxiosGet (arxiv_url r)],
         ErrorResponse InternalServerError
           (Some (''Cannot read properties of undefined (reading '' @ [CHR 0x27] @ ''entry''
                  @ [CHR 0x27] @ '')'')))"
    if "req_method areq = ''POST''" "req_json areq = Inr r" "up (arxiv_url r) = Inr result"
       "getProp result ''feed'' = Inr JUndef"
    using that
    by (simp add: arxiv_handler_cases arxiv_responseData_def typeError_def cannotRead_def
          arxiv_catch_def errorMessage_def)
  have a7: "arxiv_handler up areq =
        ([AwaitRateLimit, AxiosGet (arxiv_url r)], ErrorResponse InternalServerError (Some m))"
    if h: "req_method areq = ''POST''" "req_json areq = Inr r" "up (arxiv_url r) = Inr result"
       "getProp result ''feed'' = Inr feed"
       "getProp feed ''entry'' = Inr (JArr (good @ bad # rest))"
       "\<forall>e\<in>set good. \<exists>p. arxiv_paper e = Inr p"
       "arxiv_paper bad = Inl (ErrorInstance m)"
  proof -
    from h(6,7) have "mapE arxiv_paper (good @ bad # rest) = Inl (ErrorInstance m)"
      by (rule mapE_first_fault)
    with h(4,5) have "arxiv_responseData (orDefault (maxResults r) 10) result = Inl (ErrorInstance m)"
      by (simp add: arxiv_responseData_def orJS_def)
    with h(1,2,3) show ?thesis
      by (simp add: arxiv_handler_cases arxiv_catch_def errorMessage_def)
  qed
  have p1: "pubmed_handler up' k preq = ([], ErrorResponse MethodNotAllowed None)"
    if "req_method preq \<noteq> ''POST''"
    using that by (simp add: pubmed_handler_def)
  have p2: "pubmed_handler up' k preq = (es', ErrorResponse InternalServerError (Some m'))"
    if "req_method preq = ''POST''" "pubmed_try up' k (req_json preq) = (es', Inl (ErrorInstance m'))"
    using that by (simp add: pubmed_handler_def pubmed_catch_def errorMessage_def)
  have p3: "pubmed_handler up' k preq = (es', ErrorResponse InternalServerError (Some pubmed_unknownError))"
    if "req_method preq = ''POST''" "pubmed_try up' k (req_json preq) = (es', Inl OtherValue)"
    using that by (simp add: pubmed_handler_def pubmed_catch_def errorMessage_def)
  have p4: "pubmed_handler up' k preq = ([], ErrorResponse InternalServerError (Some m'))"
    if "req_method preq = ''POST''" "req_json preq = Inl (ErrorInstance m')"
    using that by (simp add: pubmed_handler_cases pubmed_catch_def errorMessage_def)
  have p5: "pubmed_handler up' k preq =
        ([AwaitRateLimit, AxiosGet (pubmed_searchUrl k r')], ErrorResponse InternalServerError (Some m'))"
    if "req_method preq = ''POST''" "req_json preq = Inr r'"
       "up' (pubmed_searchUrl k r') = Inl (ErrorInstance m')"
    using that by (simp add: pubmed_handler_cases pubmed_catch_def errorMessage_def)
  have p6: "pubmed_handler up' k preq =
        ([AwaitRateLimit, AxiosGet (pubmed_searchUrl k r')],
         ErrorResponse InternalServerError
           (Some (''Cannot read properties of undefined (reading '' @ [CHR 0x27] @ ''IdList''
                  @ [CHR 0x27] @ '')'')))"
    if "req_method preq = ''POST''" "req_json preq = Inr r'"
       "up' (pubmed_searchUrl k r') = Inr searchResult"
       "getProp searchResult ''eSearchResult'' = Inr JUndef"
    using that
    by (simp add: pubmed_handler_cases pubmed_pmids_def typeError_def cannotRead_def
          pubmed_catch_def errorMessage_def)
  have t: "truthy (getPropOpt (JArr ids) ''length'')" if "ids \<noteq> []"
    using that by (simp add: getPropOpt_def)
  have p7: "pubmed_handler up' k preq =
        ([AwaitRateLimit, AxiosGet (pubmed_searchUrl k r'),
          AwaitRateLimit, AxiosGet (pubmed_fetchUrl k (joinJS '','' ids))],
         ErrorResponse InternalServerError (Some m'))"
    if "req_method preq = ''POST''" "req_json preq = Inr r'"
       "up' (pubmed_searchUrl k r') = Inr searchResult"
       "pubmed_pmids searchResult = Inr (JArr ids)" "ids \<noteq> []"
       "up' (pubmed_fetchUrl k (joinJS '','' ids)) = Inl (ErrorInstance m')"
    using that t
    by (simp add: pubmed_handler_cases pubmed_catch_def errorMessage_def)
  have p8: "pubmed_handler up' k preq =
        ([AwaitRateLimit, AxiosGet (pubmed_searchUrl k r'),
          AwaitRateLimit, AxiosGet (pubmed_fetchUrl k (joinJS '','' ids))],
         ErrorResponse InternalServerError (Some m'))"
    if h: "req_method preq = ''POST''" "req_json preq = Inr r'"
       "up' (pubmed_searchUrl k r') = Inr searchResult"
       "pubmed_pmids searchResult = Inr (JArr ids)" "ids \<noteq> []"
       "up' (pubmed_fetchUrl k (joinJS '','' ids)) = Inr fetchResult"
       "getProp fetchResult ''PubmedArticleSet'' = Inr articleSet"
       "getProp articleSet ''PubmedArticle'' = Inr (JArr (good' @ bad' # rest'))"
       "\<forall>a\<in>set good'. \<exists>p. pubmed_paper a = Inr p"
       "pubmed_paper bad' = Inl (ErrorInstance m')"
  proof -
    from h(9,10) have "mapE pubmed_paper (good' @ bad' # rest') = Inl (ErrorInstance m')"
      by (rule mapE_first_fault)
    with h(7,8) have "pubmed_responseData searchResult fetchResult = Inl (ErrorInstance m')"
      by (simp add: pubmed_responseData_def)
    with h(1-6) t show ?thesis
      by (simp add: pubmed_handler_cases pubmed_catch_def errorMessage_def)
  qed
  show ?thesis
    by (intro conjI impI; (elim conjE)?;
        (rule a1 a2 a3 a4 a5 a6 a7 p1 p2 p3 p4 p5 p6 p7 p8; assumption))
qed


theorem boundary_error_handling_witness:
  "arxiv_handler (failing_upstream ''Request failed with status code 503'')
       \<lparr>req_method = ''GET'', req_json = Inr arxiv_example_request\<rparr>
     = ([], ErrorResponse MethodNotAllowed None)
   \<and> arxiv_handler (failing_upstream ''Request failed with status code 503'')
       \<lparr>req_method = ''POST'', req_json = Inl (ErrorInstance ''Unexpected end of JSON input'')\<rparr>
     = ([], ErrorResponse InternalServerError (Some ''Unexpected end of JSON input''))
   \<and> arxiv_handler (failing_upstream ''Request failed with status code 503'')
       (post arxiv_example_request)
     = ([AwaitRateLimit, AxiosGet (arxiv_url arxiv_example_request)],
        ErrorResponse InternalServerError (Some ''Request failed with status code 503''))
   \<and> arxiv_handler (\<lambda>url. Inr arxiv_partial_fault_result) (post arxiv_example_request)
     = ([AwaitRateLimit, AxiosGet (arxiv_url arxiv_example_request)],
        ErrorResponse InternalServerError
          (Some (''Cannot read properties of undefined (reading '' @ [CHR 0x27] @ ''href''
                 @ [CHR 0x27] @ '')'')))
   \<and> pubmed_handler (failing_upstream ''Request failed with status code 429'') None
       \<lparr>req_method = ''GET'', req_json = Inr pubmed_example_request\<rparr>
     = ([], ErrorResponse MethodNotAllowed None)
   \<and> pubmed_handler (pubmed_failing_fetch pubmed_two_id_result ''Request failed with status code 429'')
       None (post pubmed_example_request)
     = ([AwaitRateLimit, AxiosGet (pubmed_searchUrl None pubmed_example_request),
         AwaitRateLimit, AxiosGet (pubmed_fetchUrl None ''31452104,29625052'')],
        ErrorResponse InternalServerError (Some ''Request failed with status code 429''))
   \<and> pubmed_handler (pubmed_upstream pubmed_two_id_result pubmed_partial_fault_set) None
       (post pubmed_example_request)
     = ([AwaitRateLimit, AxiosGet (pubmed_searchUrl None pubmed_example_request),
         AwaitRateLimit, AxiosGet (pubmed_fetchUrl None ''31452104,29625052'')],
        ErrorResponse InternalServerError
          (Some (''Cannot read properties of undefined (reading '' @ [CHR 0x27] @ ''Title''
                 @ [CHR 0x27] @ '')'')))"
proof -
  have w1: "arxiv_handler (failing_upstream ''Request failed with status code 503'')
       \<lparr>req_method = ''GET'', req_json = Inr arxiv_example_request\<rparr>
     = ([], ErrorResponse MethodNotAllowed None)"
    by (rule boundary_error_handling [THEN conjunct1, THEN mp]) simp
  have w2: "arxiv_handler (failing_upstream ''Request failed with status code 503'')
       \<lparr>req_method = ''POST'', req_json = Inl (ErrorInstance ''Unexpected end of JSON input'')\<rparr>
     = ([], ErrorResponse InternalServerError (Some ''Unexpected end of JSON input''))"
    by (rule boundary_error_handling
          [THEN conjunct2, THEN conjunct2, THEN conjunct2, THEN conjunct1, THEN mp]) simp
  have w3: "arxiv_handler (failing_upstream ''Request failed with status code 503'')
       (post arxiv_example_request)
     = ([AwaitRateLimit, AxiosGet (arxiv_url arxiv_example_request)],
        ErrorResponse InternalServerError (Some ''Request failed with status code 503''))"
    by (rule boundary_error_handling
          [THEN conjunct2, THEN conjunct2, THEN conjunct2, THEN conjunct2, THEN conjunct1, THEN mp])
       (simp add: post_def failing_upstream_def)
  have w4: "arxiv_handler (\<lambda>url. Inr arxiv_partial_fault_result) (post arxiv_example_request)
     = ([AwaitRateLimit, AxiosGet (arxiv_url arxiv_example_request)],
        ErrorResponse InternalServerError
          (Some (''Cannot read properties of undefined (reading '' @ [CHR 0x27] @ ''href''
                 @ [CHR 0x27] @ '')'')))"
    by (rule boundary_error_handling
          [where result = arxiv_partial_fault_result
             and feed = "JObj [(''title'', JStr ''ArXiv Query''),
                               (''opensearch:totalResults'', arxiv_counter 2),
                               (''entry'', JArr [arxiv_example_entry, arxiv_entry_without_pdf])]"
             and good = "[arxiv_example_entry]" and bad = arxiv_entry_without_pdf and rest = "[]",
           THEN conjunct2, THEN conjunct2, THEN conjunct2, THEN conjunct2, THEN conjunct2,
           THEN conjunct2, THEN conjunct1, THEN mp])
       (simp add: post_def arxiv_partial_fault_result_def arxiv_example_paper_eval
          arxiv_entry_without_pdf_eval)
  have w5: "pubmed_handler (failing_upstream ''Request failed with status code 429'') None
       \<lparr>req_method = ''GET'', req_json = Inr pubmed_example_request\<rparr>
     = ([], ErrorResponse MethodNotAllowed None)"
    by (rule boundary_error_handling
          [THEN conjunct2, THEN conjunct2, THEN conjunct2, THEN conjunct2, THEN conjunct2,
           THEN conjunct2, THEN conjunct2, THEN conjunct1, THEN mp]) simp
  have s: "startsWith ''https://eutils.ncbi.nlm.nih.gov/entrez/eutils/esearch.fcgi''
             (pubmed_searchUrl None pubmed_example_request)"
    by (simp add: pubmed_searchUrl_def pubmed_baseUrl_def)
  have f: "\<not> startsWith ''https://eutils.ncbi.nlm.nih.gov/entrez/eutils/esearch.fcgi''
             (pubmed_fetchUrl None ''31452104,29625052'')"
    by (simp add: pubmed_fetchUrl_def pubmed_baseUrl_def)
  have w6: "pubmed_handler (pubmed_failing_fetch pubmed_two_id_result ''Request failed with status code 429'')
       None (post pubmed_example_request)
     = ([AwaitRateLimit, AxiosGet (pubmed_searchUrl None pubmed_example_request),
         AwaitRateLimit, AxiosGet (pubmed_fetchUrl None (joinJS '','' [JNum 31452104, JNum 29625052]))],
        ErrorResponse InternalServerError (Some ''Request failed with status code 429''))"
    by (rule boundary_error_handling
          [where searchResult = pubmed_two_id_result,
           THEN conjunct2, THEN conjunct2, THEN conjunct2, THEN conjunct2, THEN conjunct2,
           THEN conjunct2, THEN conjunct2, THEN conjunct2, THEN conjunct2, THEN conjunct2,
           THEN conjunct2, THEN conjunct2, THEN conjunct2, THEN conjunct1, THEN mp])
       (simp add: post_def pubmed_failing_fetch_def s f pubmed_two_id_pmids joinJS_two_ids)
  have w7: "pubmed_handler (pubmed_upstream pubmed_two_id_result pubmed_partial_fault_set) None
       (post pubmed_example_request)
     = ([AwaitRateLimit, AxiosGet (pubmed_searchUrl None pubmed_example_request),
         AwaitRateLimit, AxiosGet (pubmed_fetchUrl None (joinJS '','' [JNum 31452104, JNum 29625052]))],
        ErrorResponse InternalServerError
          (Some (''Cannot read properties of undefined (reading '' @ [CHR 0x27] @ ''Title''
                 @ [CHR 0x27] @ '')'')))"
    by (rule boundary_error_handling
          [where searchResult = pubmed_two_id_result and fetchResult = pubmed_partial_fault_set
             and articleSet = "JObj [(''PubmedArticle'',
                   JArr [pubmed_example_article 31452104 ''Screening for lung cancer'',
                         pubmed_article_without_journal])]"
             and good' = "[pubmed_example_article 31452104 ''Screening for lung cancer'']"
             and bad' = pubmed_article_without_journal and rest' = "[]",
           THEN conjunct2, THEN conjunct2, THEN conjunct2, THEN conjunct2, THEN conjunct2,
           THEN conjunct2, THEN conjunct2, THEN conjunct2, THEN conjunct2, THEN conjunct2,
           THEN conjunct2, THEN conjunct2, THEN conjunct2, THEN conjunct2, THEN mp])
       (simp add: post_def pubmed_upstream_def s f pubmed_two_id_pmids joinJS_two_ids
          pubmed_partial_fault_set_def pubmed_example_paper_eval pubmed_article_without_journal_eval)
  from w1 w2 w3 w4 w5 w6 w7 show ?thesis by (simp only: joinJS_two_ids simp_thms)
qed

text \<open>
  C10 fails on the code in its last clause. With no \<^verbatim>\<open>entry\<close> element the handler does
  return the successful envelope with \<^verbatim>\<open>papers\<close> empty and no \<^verbatim>\<open>nextCursor\<close>, but
  \<^verbatim>\<open>totalResults\<close> is not taken from the feed's counter field: the field is an object
  holding the count under \<^verbatim>\<open>#text\<close>, its property \<^verbatim>\<open>0\<close> is \<^verbatim>\<open>undefined\<close>, and
  \<^verbatim>\<open>parseInt\<close> of that is \<^verbatim>\<open>NaN\<close>.
\<close>

theorem arxiv_no_entry_total_is_NaN:
  "arxiv_handler (\<lambda>url. Inr arxiv_no_entry_result) (post arxiv_example_request)
     = ([AwaitRateLimit, AxiosGet (arxiv_url arxiv_example_request)],
        Response (JObj [(''nextCursor'', JUndef), (''papers'', JArr []), (''totalResults'', JNaN)])
                 [(''Cache-Control'', ''max-age=3600''), (''Content-Type'', ''application/json'')])
   \<and> readProp (readProp (readProp arxiv_no_entry_result ''feed'') ''opensearch:totalResults'') ''#text''
       = JNum 0"
proof -
  have n: "parseInt10 JUndef = JNaN"
    by (simp add: parseInt10_def isWhiteSpace_def isDigit_def)
  have "arxiv_responseData 2 arxiv_no_entry_result
          = Inr (JObj [(''nextCursor'', JUndef), (''papers'', JArr []), (''totalResults'', JNaN)])"
    by (simp add: arxiv_responseData_def arxiv_no_entry_result_def arxiv_counter_def orJS_def n)
  then show ?thesis
    by (simp add: arxiv_handler_cases post_def arxiv_example_request_def orDefault_def
          successHeaders_def arxiv_no_entry_result_def arxiv_counter_def)
qed

end
